theory Spec2Isabelle
  imports Complex_Main "HOL-Library.Word"
begin

section \<open>C types, MPI datatypes and the \<open>info\<close> mode\<close>

text \<open>
  The widths of \<open>int\<close>, \<open>long\<close>, \<open>size_t\<close> and \<open>double\<close> are fixed by the C data model
  of the build.  \<open>sizeof\<close> gives them in bytes.
\<close>

datatype data_model = ILP32 | LP64 | LLP64

datatype ctype = C_char | C_int | C_long | C_size_t | C_double

fun sizeof :: "data_model \<Rightarrow> ctype \<Rightarrow> nat" where
  "sizeof dm C_char = 1"
| "sizeof dm C_int = 4"
| "sizeof ILP32 C_long = 4"
| "sizeof LP64 C_long = 8"
| "sizeof LLP64 C_long = 4"
| "sizeof ILP32 C_size_t = 4"
| "sizeof LP64 C_size_t = 8"
| "sizeof LLP64 C_size_t = 8"
| "sizeof dm C_double = 8"

text \<open>
  \<^verbatim>\<open>typedef double scalar_t; typedef int handle_t; typedef int local_t; typedef long global_t;\<close>
\<close>

definition ctype_scalar_t :: ctype where "ctype_scalar_t = C_double"
definition ctype_handle_t :: ctype where "ctype_handle_t = C_int"
definition ctype_local_t :: ctype where "ctype_local_t = C_int"
definition ctype_global_t :: ctype where "ctype_global_t = C_long"

datatype mpi_datatype = MPI_CHAR | MPI_INT | MPI_LONG | MPI_DOUBLE

text \<open>The C type an MPI datatype moves: \<open>MPI::INT\<close> moves an \<open>int\<close>, and so on.\<close>

fun mpi_ctype :: "mpi_datatype \<Rightarrow> ctype" where
  "mpi_ctype MPI_CHAR = C_char"
| "mpi_ctype MPI_INT = C_int"
| "mpi_ctype MPI_LONG = C_long"
| "mpi_ctype MPI_DOUBLE = C_double"

text \<open>The block headed \<^verbatim>\<open>// matching mpi types\<close> in the source.\<close>

definition MPI_SCALAR :: mpi_datatype where "MPI_SCALAR = MPI_DOUBLE"
definition MPI_HANDLE :: mpi_datatype where "MPI_HANDLE = MPI_INT"
definition MPI_SIZE :: mpi_datatype where "MPI_SIZE = MPI_INT"
definition MPI_LOCAL :: mpi_datatype where "MPI_LOCAL = MPI_INT"
definition MPI_GLOBAL :: mpi_datatype where "MPI_GLOBAL = MPI_LONG"

text \<open>Bits that one element of an MPI datatype occupies in an exchange.\<close>

definition wire_bits :: "data_model \<Rightarrow> mpi_datatype \<Rightarrow> nat" where
  "wire_bits dm dt = 8 * sizeof dm (mpi_ctype dt)"

text \<open>
  What \<open>main\<close> prints in \<open>info\<close> mode: a line is the sequence of items streamed to
  \<open>std::cout\<close> before \<open>std::endl\<close>.  \<open>sizeof(T) << 3\<close> is \<open>push_bit 3\<close>.
\<close>

datatype out_item = Str string | Num nat

definition TOKENS :: "string list" where
  "TOKENS = [''new_matrix'', ''new_vector'', ''add_evec'', ''get_vector'', ''new_map'', ''new_graph'']"

fun join_tokens :: "string list \<Rightarrow> string" where
  "join_tokens [] = ''''"
| "join_tokens [t] = t"
| "join_tokens (t # ts) = t @ '', '' @ join_tokens ts"

definition STR_TOKENS :: string where
  "STR_TOKENS = ''('' @ join_tokens TOKENS @ '')''"

definition info :: "data_model \<Rightarrow> out_item list list" where
  "info dm =
    [ [Str ''token: enum'', Str STR_TOKENS],
      [Str ''local: int'', Num (push_bit 3 (sizeof dm ctype_local_t))],
      [Str ''global: int'', Num (push_bit 3 (sizeof dm ctype_global_t))],
      [Str ''size: int'', Num (push_bit 3 (sizeof dm C_size_t))],
      [Str ''handle: int'', Num (push_bit 3 (sizeof dm ctype_handle_t))],
      [Str ''scalar: float'', Num (push_bit 3 (sizeof dm ctype_scalar_t))] ]"

text \<open>The number printed on the line that starts with the given label.\<close>

fun printed_bits :: "out_item list list \<Rightarrow> string \<Rightarrow> nat option" where
  "printed_bits [] label = None"
| "printed_bits ([Str s, Num n] # ls) label = (if s = label then Some n else printed_bits ls label)"
| "printed_bits (l # ls) label = printed_bits ls label"


section \<open>Values of the program\<close>

text \<open>
  \<open>handle_t\<close> is a C \<open>int\<close>: a 32-bit two's complement word.  \<open>global_t\<close> is a
  \<open>long\<close>; the program only stores, compares and passes global identifiers on, so the
  64 bits of the LP64 model are written here.  A \<open>size_t\<close> is read as the natural number
  it holds; the 32-bit \<open>int\<close> variables that sizes are assigned to (\<open>imap\<close>, \<open>nitems\<close>, ...)
  keep their truncation.  \<open>scalar_t\<close> is \<open>double\<close>; its values are abstracted to reals,
  so that sum-into is exact addition.  An element of an exchange of type \<open>MPI::INT\<close> is an
  \<open>int\<close> on the wire, whatever the type of the variable that receives it.
\<close>

type_synonym scalar_t = real
type_synonym handle_t = "32 word"
type_synonym global_t = "64 word"
type_synonym size_t = nat
type_synonym mpi_int = "32 word"

datatype error =
    InvalidHandle    \<comment> \<open>a registry table indexed outside its bounds\<close>
  | RangeError       \<comment> \<open>a buffer allocated or sliced outside its bounds\<close>
  | NotOwned         \<comment> \<open>sum-into at a global index this worker does not own\<close>
  | ProtocolDesync   \<comment> \<open>the delivered data has not the shape of the posted receive\<close>
  | GroupDeadlock    \<comment> \<open>a receive that the controller never matches\<close>

definition and_then :: "error + 'a \<Rightarrow> ('a \<Rightarrow> error + 'b) \<Rightarrow> error + 'b" where
  "and_then r f = (case r of Inl e \<Rightarrow> Inl e | Inr x \<Rightarrow> f x)"


subsection \<open>A size received as \<open>MPI_SIZE\<close>\<close>

text \<open>
  The program receives every size into a \<open>size_t\<close> variable, or into a buffer of \<open>size_t\<close>
  elements, with the datatype \<open>MPI_SIZE\<close>, which is \<open>MPI::INT\<close>: the receive writes
  \<open>sizeof(int)\<close> bytes per element, from the address of the variable on.  Where \<open>size_t\<close>
  is as wide as \<open>int\<close> the variable then holds the element.  Where \<open>size_t\<close> is twice as
  wide, one element fills the half of the variable at the lower address, and the other half
  keeps what it held before; in a buffer two consecutive elements fill one \<open>size_t\<close>, and
  the second half of the buffer keeps what it held before.

  \<open>join_halves\<close> is the value of a \<open>size_t\<close> made of two 32-bit halves, the first at
  the lower address.  \<open>store_int\<close> is the value of a \<open>size_t\<close> variable after the receive
  of the element \<open>x\<close>, where \<open>rest\<close> is the half that the receive does not write.
  \<open>store_ints\<close> is the content of a buffer of \<open>length xs\<close> elements of type \<open>size_t\<close>
  after the receive of the elements \<open>xs\<close>, where \<open>rest\<close> are the halves that the receive
  does not write, in address order.
\<close>

datatype byte_order = LittleEndian | BigEndian

definition join_halves :: "byte_order \<Rightarrow> mpi_int \<Rightarrow> mpi_int \<Rightarrow> size_t" where
  "join_halves bo first second =
     (case bo of
        LittleEndian \<Rightarrow> unat first + 2 ^ 32 * unat second
      | BigEndian \<Rightarrow> 2 ^ 32 * unat first + unat second)"

definition store_int :: "data_model \<Rightarrow> byte_order \<Rightarrow> mpi_int \<Rightarrow> mpi_int \<Rightarrow> size_t" where
  "store_int dm bo rest x =
     (if sizeof dm C_size_t = sizeof dm (mpi_ctype MPI_SIZE) then unat x
      else join_halves bo x rest)"

fun pairs_of :: "'a list \<Rightarrow> ('a \<times> 'a) list" where
  "pairs_of (a # b # xs) = (a, b) # pairs_of xs"
| "pairs_of xs = []"

definition store_ints :: "data_model \<Rightarrow> byte_order \<Rightarrow> mpi_int list \<Rightarrow> mpi_int list \<Rightarrow> size_t list" where
  "store_ints dm bo rest xs =
     (if sizeof dm C_size_t = sizeof dm (mpi_ctype MPI_SIZE) then map unat xs
      else map (\<lambda>(a, b). join_halves bo a b) (pairs_of (xs @ rest)))"


subsection \<open>The external numerical library\<close>

text \<open>
  Modelled from the spec: the classes \<open>Tpetra::Map\<close>, \<open>Tpetra::Vector\<close>, \<open>Tpetra::CrsGraph\<close>
  and \<open>Tpetra::CrsMatrix\<close> are not part of the source.  The spec (section 3) gives their
  contract: a map holds the total size and this worker's list of global identifiers; a
  vector has one scalar slot per locally owned element of its map and is mutated by
  sum-into at a global index; a graph receives column indices per row and is then sealed;
  a matrix is created from a graph.  The communicator and the node of a map are left out.
\<close>

record map_t =
  numGlobalElements :: size_t
  elementList :: "global_t list"
  map_indexBase :: global_t

definition new_map_t :: "size_t \<Rightarrow> global_t list \<Rightarrow> global_t \<Rightarrow> map_t" where
  "new_map_t sz elements base =
     \<lparr>numGlobalElements = sz, elementList = elements, map_indexBase = base\<rparr>"

definition getNodeNumElements :: "map_t \<Rightarrow> size_t" where
  "getNodeNumElements m = length (elementList m)"

text \<open>The local index of a global identifier: its first position in the element list.\<close>

fun first_index :: "global_t list \<Rightarrow> global_t \<Rightarrow> nat option" where
  "first_index [] g = None"
| "first_index (x # xs) g =
     (if x = g then Some 0 else map_option Suc (first_index xs g))"

definition getLocalElement :: "map_t \<Rightarrow> global_t \<Rightarrow> nat option" where
  "getLocalElement m g = first_index (elementList m) g"

text \<open>
  Modelled from the spec: \<open>Tpetra::Vector\<close>, its constructor from a map, and its members
  \<open>sumIntoGlobalValue\<close> and \<open>getData\<close>.  A new vector holds 0 in each slot (the spec's
  end-to-end scenario reads 0.0 where nothing was accumulated); sum-into adds the value to
  the slot of the global index, and fails for an index that the worker does not own; the
  data are the local values in the order of the local indices.
\<close>

record vector_t =
  vector_map :: map_t
  vector_values :: "scalar_t list"

definition new_vector_t :: "map_t \<Rightarrow> vector_t" where
  "new_vector_t m = \<lparr>vector_map = m, vector_values = replicate (getNodeNumElements m) 0\<rparr>"

definition sumIntoGlobalValue :: "global_t \<Rightarrow> scalar_t \<Rightarrow> vector_t \<Rightarrow> error + vector_t" where
  "sumIntoGlobalValue g x v =
     (case getLocalElement (vector_map v) g of
        None \<Rightarrow> Inl NotOwned
      | Some k \<Rightarrow> Inr (v\<lparr>vector_values := (vector_values v)[k := vector_values v ! k + x]\<rparr>))"

definition getData :: "vector_t \<Rightarrow> scalar_t list" where
  "getData v = vector_values v"

text \<open>
  Modelled from the spec: \<open>Tpetra::CrsGraph\<close>, its constructor from a map and the number of
  columns to allocate per local row, and its members \<open>insertGlobalIndices\<close> and
  \<open>fillComplete\<close>.  A graph records the insertions it receives, in call order.  The first
  argument of \<open>insertGlobalIndices\<close> is the row, the second its column indices; both are
  global identifiers (\<open>GlobalOrdinal\<close>), and the program instantiates them with \<open>global_t\<close>.
\<close>

record graph_t =
  graph_map :: map_t
  graph_numcols :: "size_t list"
  graph_inserted :: "(global_t \<times> global_t list) list"
  graph_filled :: bool

definition new_graph_t :: "map_t \<Rightarrow> size_t list \<Rightarrow> graph_t" where
  "new_graph_t m numcols =
     \<lparr>graph_map = m, graph_numcols = numcols, graph_inserted = [], graph_filled = False\<rparr>"

definition insertGlobalIndices :: "global_t \<Rightarrow> global_t list \<Rightarrow> graph_t \<Rightarrow> graph_t" where
  "insertGlobalIndices globalRow indices g =
     g\<lparr>graph_inserted := graph_inserted g @ [(globalRow, indices)]\<rparr>"

definition fillComplete :: "graph_t \<Rightarrow> graph_t" where
  "fillComplete g = g\<lparr>graph_filled := True\<rparr>"

text \<open>Modelled from the spec: \<open>Tpetra::CrsMatrix\<close> and its constructor from a graph.\<close>

record matrix_t =
  matrix_graph :: graph_t

definition new_matrix_t :: "graph_t \<Rightarrow> matrix_t" where
  "new_matrix_t g = \<lparr>matrix_graph = g\<rparr>"


subsection \<open>Teuchos containers\<close>

text \<open>
  Modelled from the spec: \<open>Teuchos::Array::operator[]\<close> and \<open>Teuchos::ArrayRCP::view\<close> are
  not part of the source.  The spec (sections 4.1 and 7) makes an access outside the bounds
  a failure that ends the worker; this is the behaviour of the containers with their bounds
  checks compiled in.  The index of \<open>operator[]\<close> is signed, so a negative handle is out of
  range.  \<open>view\<close> of size 0 is the null view and is not checked.
\<close>

definition in_bounds :: "'a list \<Rightarrow> handle_t \<Rightarrow> bool" where
  "in_bounds xs h = (0 \<le> sint h \<and> nat (sint h) < length xs)"

definition at_handle :: "'a list \<Rightarrow> handle_t \<Rightarrow> error + 'a" where
  "at_handle xs h = (if in_bounds xs h then Inr (xs ! nat (sint h)) else Inl InvalidHandle)"

definition view :: "'a list \<Rightarrow> size_t \<Rightarrow> size_t \<Rightarrow> error + 'a list" where
  "view xs offset sz =
     (if sz = 0 then Inr []
      else if offset + sz \<le> length xs then Inr (take sz (drop offset xs))
      else Inl RangeError)"


section \<open>The state of one worker\<close>

text \<open>
  What the controller delivers to a receive of this worker: the elements on the wire, by
  the kind of the field.  A field of kind size is a list of \<open>MPI::INT\<close> elements.
\<close>

datatype msg =
    Chars "8 word list"
  | Handles "handle_t list"
  | Sizes "mpi_int list"
  | Globals "global_t list"
  | Scalars "scalar_t list"

datatype call = Bcast | Scatter | Scatterv | Recv

text \<open>
  The transcript of a worker: every transport call it performs, in order.  A receiving
  call is logged with its collective kind, its MPI datatype, its posted element count and
  what was delivered; a gather with what this worker contributes.
\<close>

datatype event =
    Received call mpi_datatype nat msg
  | Gather mpi_datatype "handle_t list"
  | Gatherv mpi_datatype "scalar_t list"
  | Init
  | Disconnect
  | Finalize

text \<open>
  The four registries are the global arrays of the source.  \<open>VECTORS\<close> holds reference
  counted pointers to mutable vectors: an entry is an address into \<open>heap\<close>, and \<open>brk\<close> is
  the next free address.  Maps and graphs are \<open>const\<close> and matrices are never mutated, so
  these tables hold the objects.  \<open>my_rank\<close> is what \<open>intercomm.Get_rank()\<close> returns,
  \<open>inbox\<close> the deliveries of the controller that this worker has not received yet.

  \<open>build\<close> and \<open>endian\<close> are the data model and the byte order of the machine the worker
  is built for.  The \<open>size_t\<close> variables \<open>size\<close>, \<open>ndofs\<close>, \<open>rank\<close> and \<open>nitems\<close> are
  declared without an initial value, and what the buffer \<open>numcols\<close> holds when it is
  allocated is not decided by the source: \<open>uninit t k\<close> is what the \<open>k\<close>-th 32-bit half
  that the receive leaves unwritten holds, in the variable or buffer of the transport call
  that the worker performs after \<open>t\<close> earlier ones.  It is any value: nothing in the
  program determines it.
\<close>

record worker =
  my_rank :: nat
  build :: data_model
  endian :: byte_order
  uninit :: "nat \<Rightarrow> nat \<Rightarrow> mpi_int"
  VECTORS :: "nat list"
  MATRICES :: "matrix_t list"
  MAPS :: "map_t list"
  GRAPHS :: "graph_t list"
  heap :: "nat \<Rightarrow> vector_t"
  brk :: nat
  inbox :: "msg list"
  wire :: "event list"


subsection \<open>Transport\<close>

text \<open>
  A receiving call takes the next delivery, or blocks for ever when there is none.  The
  typed readers check that the delivery has the kind and the element count of the
  receive, and return what the variable or buffer of the call holds afterwards.  For a
  handle (an \<open>int\<close> received as \<open>MPI::INT\<close>), a global identifier (a \<open>long\<close> received as
  \<open>MPI::LONG\<close>) and a scalar (a \<open>double\<close> received as \<open>MPI::DOUBLE\<close>) that is the delivery.
  For a size it is \<open>size_at w 0 x\<close>, and for a buffer of sizes \<open>sizes_at w 0 xs\<close>:
  \<open>size_at w k x\<close> is the value of the \<open>size_t\<close> variable into which the \<open>k\<close>-th next
  transport call of the worker \<open>w\<close> receives the element \<open>x\<close>, and \<open>sizes_at w k xs\<close> the
  content of the buffer into which it receives the elements \<open>xs\<close>.  \<open>size_intact w k x\<close>
  says that the variable then holds the element that was sent.
\<close>

definition size_at :: "worker \<Rightarrow> nat \<Rightarrow> mpi_int \<Rightarrow> size_t" where
  "size_at w k x =
     store_int (build w) (endian w) (uninit w (length (wire w) + k) 0) x"

definition sizes_at :: "worker \<Rightarrow> nat \<Rightarrow> mpi_int list \<Rightarrow> size_t list" where
  "sizes_at w k xs =
     store_ints (build w) (endian w)
       (map (uninit w (length (wire w) + k)) [0..<length xs]) xs"

definition size_intact :: "worker \<Rightarrow> nat \<Rightarrow> mpi_int \<Rightarrow> bool" where
  "size_intact w k x = (size_at w k x = unat x)"

definition exchange :: "call \<Rightarrow> mpi_datatype \<Rightarrow> nat \<Rightarrow> worker \<Rightarrow> error + (msg \<times> worker)" where
  "exchange c dt n w =
     (case inbox w of
        [] \<Rightarrow> Inl GroupDeadlock
      | m # q \<Rightarrow> Inr (m, w\<lparr>inbox := q, wire := wire w @ [Received c dt n m]\<rparr>))"

definition get_char :: "call \<Rightarrow> mpi_datatype \<Rightarrow> worker \<Rightarrow> error + (8 word \<times> worker)" where
  "get_char c dt w = and_then (exchange c dt 1 w) (\<lambda>(m, w').
     case m of Chars [x] \<Rightarrow> Inr (x, w') | _ \<Rightarrow> Inl ProtocolDesync)"

definition get_handle :: "call \<Rightarrow> mpi_datatype \<Rightarrow> worker \<Rightarrow> error + (handle_t \<times> worker)" where
  "get_handle c dt w = and_then (exchange c dt 1 w) (\<lambda>(m, w').
     case m of Handles [h] \<Rightarrow> Inr (h, w') | _ \<Rightarrow> Inl ProtocolDesync)"

definition get_size :: "call \<Rightarrow> mpi_datatype \<Rightarrow> worker \<Rightarrow> error + (size_t \<times> worker)" where
  "get_size c dt w = and_then (exchange c dt 1 w) (\<lambda>(m, w').
     case m of Sizes [x] \<Rightarrow> Inr (size_at w 0 x, w') | _ \<Rightarrow> Inl ProtocolDesync)"

definition get_sizes :: "call \<Rightarrow> mpi_datatype \<Rightarrow> nat \<Rightarrow> worker \<Rightarrow> error + (size_t list \<times> worker)" where
  "get_sizes c dt n w = and_then (exchange c dt n w) (\<lambda>(m, w').
     case m of Sizes xs \<Rightarrow> if length xs = n then Inr (sizes_at w 0 xs, w') else Inl ProtocolDesync
             | _ \<Rightarrow> Inl ProtocolDesync)"

definition get_globals :: "call \<Rightarrow> mpi_datatype \<Rightarrow> nat \<Rightarrow> worker \<Rightarrow> error + (global_t list \<times> worker)" where
  "get_globals c dt n w = and_then (exchange c dt n w) (\<lambda>(m, w').
     case m of Globals xs \<Rightarrow> if length xs = n then Inr (xs, w') else Inl ProtocolDesync
             | _ \<Rightarrow> Inl ProtocolDesync)"

definition get_scalars :: "call \<Rightarrow> mpi_datatype \<Rightarrow> nat \<Rightarrow> worker \<Rightarrow> error + (scalar_t list \<times> worker)" where
  "get_scalars c dt n w = and_then (exchange c dt n w) (\<lambda>(m, w').
     case m of Scalars xs \<Rightarrow> if length xs = n then Inr (xs, w') else Inl ProtocolDesync
             | _ \<Rightarrow> Inl ProtocolDesync)"

definition gather :: "mpi_datatype \<Rightarrow> handle_t \<Rightarrow> worker \<Rightarrow> worker" where
  "gather dt h w = w\<lparr>wire := wire w @ [Gather dt [h]]\<rparr>"

definition gatherv :: "mpi_datatype \<Rightarrow> scalar_t list \<Rightarrow> worker \<Rightarrow> worker" where
  "gatherv dt xs w = w\<lparr>wire := wire w @ [Gatherv dt xs]\<rparr>"


section \<open>The command handlers\<close>

text \<open>
  Each handler is the sequence of the transport calls, container accesses and library calls
  of its source function, in source order.  The debug stream \<open>out(intercomm)\<close> is left out:
  it is discarded unless \<open>DEBUG\<close> is defined, and nothing reads it.

  \<open>handle_t h = TABLE.size()\<close>: the table length, converted to \<open>int\<close>.
\<close>

definition size_to_handle :: "nat \<Rightarrow> handle_t" where
  "size_to_handle n = of_nat n"

definition new_map :: "worker \<Rightarrow> error + worker" where
  "new_map w0 =
     (let imap = size_to_handle (length (MAPS w0)) in
      and_then (get_size Bcast MPI_SIZE w0) (\<lambda>(sz, w1).
      and_then (get_size Scatter MPI_SIZE w1) (\<lambda>(ndofs, w2).
      and_then (get_globals Scatterv MPI_GLOBAL ndofs w2) (\<lambda>(elements, w3).
      Inr (gather MPI_HANDLE imap
             (w3\<lparr>MAPS := MAPS w3 @ [new_map_t sz elements 0]\<rparr>))))))"

definition new_vector :: "worker \<Rightarrow> error + worker" where
  "new_vector w0 =
     (let ivec = size_to_handle (length (VECTORS w0)) in
      and_then (get_handle Bcast MPI_HANDLE w0) (\<lambda>(imap, w1).
      and_then (at_handle (MAPS w1) imap) (\<lambda>m.
      Inr (gather MPI_HANDLE ivec
             (w1\<lparr>VECTORS := VECTORS w1 @ [brk w1],
                  heap := (heap w1)(brk w1 := new_vector_t m),
                  brk := Suc (brk w1)\<rparr>)))))"

text \<open>
  The two loops of \<open>new_graph\<close> over \<open>irow = 0, ..., nrows - 1\<close>.  The first sums the
  column counts in the \<open>int\<close> variable \<open>nitems\<close>; the second passes \<open>irow\<close>, converted to
  \<open>global_t\<close>, and the view of the row's columns to \<open>insertGlobalIndices\<close>.
\<close>

fun count_items :: "size_t list \<Rightarrow> nat list \<Rightarrow> 32 word \<Rightarrow> 32 word" where
  "count_items numcols [] nitems = nitems"
| "count_items numcols (irow # rows) nitems =
     count_items numcols rows (nitems + of_nat (numcols ! irow))"

fun insert_rows ::
  "size_t list \<Rightarrow> global_t list \<Rightarrow> nat list \<Rightarrow> size_t \<Rightarrow> graph_t \<Rightarrow> error + graph_t" where
  "insert_rows numcols items [] offset graph = Inr graph"
| "insert_rows numcols items (irow # rows) offset graph =
     (let sz = numcols ! irow in
      and_then (view items offset sz) (\<lambda>cols.
      insert_rows numcols items rows (offset + sz)
        (insertGlobalIndices (of_nat irow) cols graph)))"

definition new_graph :: "worker \<Rightarrow> error + worker" where
  "new_graph w0 =
     (let igraph = size_to_handle (length (GRAPHS w0)) in
      and_then (get_handle Bcast MPI_HANDLE w0) (\<lambda>(imap, w1).
      and_then (at_handle (MAPS w1) imap) (\<lambda>m.
      let nrows = getNodeNumElements m in
      and_then (get_sizes Scatterv MPI_SIZE nrows w1) (\<lambda>(numcols, w2).
      let nitems = count_items numcols [0..<nrows] 0 in
      if sint nitems < 0 then Inl RangeError else
      and_then (get_globals Scatterv MPI_GLOBAL (nat (sint nitems)) w2) (\<lambda>(items, w3).
      and_then (insert_rows numcols items [0..<nrows] 0 (new_graph_t m numcols)) (\<lambda>graph.
      Inr (gather MPI_HANDLE igraph
             (w3\<lparr>GRAPHS := GRAPHS w3 @ [fillComplete graph]\<rparr>))))))))"

text \<open>The loop of \<open>add_evec\<close> over \<open>i = 0, ..., nitems - 1\<close>.\<close>

fun sum_into :: "global_t list \<Rightarrow> scalar_t list \<Rightarrow> nat list \<Rightarrow> vector_t \<Rightarrow> error + vector_t" where
  "sum_into idx data [] vec = Inr vec"
| "sum_into idx data (i # is) vec =
     and_then (sumIntoGlobalValue (idx ! i) (data ! i) vec) (sum_into idx data is)"

definition add_evec :: "worker \<Rightarrow> error + worker" where
  "add_evec w0 =
     and_then (get_size Bcast MPI_SIZE w0) (\<lambda>(rank, w1).
     if rank \<noteq> my_rank w1 then Inr w1 else
     and_then (get_handle Recv MPI_HANDLE w1) (\<lambda>(ivec, w2).
     and_then (get_size Recv MPI_SIZE w2) (\<lambda>(nitems, w3).
     and_then (get_globals Recv MPI_GLOBAL nitems w3) (\<lambda>(idx, w4).
     and_then (get_scalars Recv MPI_SCALAR nitems w4) (\<lambda>(data, w5).
     and_then (at_handle (VECTORS w5) ivec) (\<lambda>addr.
     and_then (sum_into idx data [0..<nitems] (heap w5 addr)) (\<lambda>vec.
     Inr (w5\<lparr>heap := (heap w5)(addr := vec)\<rparr>))))))))"

definition get_vector :: "worker \<Rightarrow> error + worker" where
  "get_vector w0 =
     and_then (get_handle Bcast MPI_HANDLE w0) (\<lambda>(ivec, w1).
     and_then (at_handle (VECTORS w1) ivec) (\<lambda>addr.
     Inr (gatherv MPI_SCALAR (getData (heap w1 addr)) w1)))"

definition new_matrix :: "worker \<Rightarrow> error + worker" where
  "new_matrix w0 =
     (let imat = size_to_handle (length (MATRICES w0)) in
      and_then (get_handle Bcast MPI_HANDLE w0) (\<lambda>(igraph, w1).
      and_then (at_handle (GRAPHS w1) igraph) (\<lambda>graph.
      Inr (gather MPI_HANDLE imat
             (w1\<lparr>MATRICES := MATRICES w1 @ [new_matrix_t graph]\<rparr>)))))"


section \<open>The dispatch loop and \<open>main\<close>\<close>

definition FTABLE :: "(worker \<Rightarrow> error + worker) list" where
  "FTABLE = [new_matrix, new_vector, add_evec, get_vector, new_map, new_graph]"

definition NTOKENS :: nat where
  "NTOKENS = length FTABLE"

text \<open>
  The \<open>for ( ;; )\<close> loop of \<open>eventloop\<close>: \<open>c\<close> is an \<open>unsigned char\<close>.  The loop ends
  when the inbox is exhausted at the latest: the worker then blocks in the broadcast for
  ever, which is the value \<open>Inl GroupDeadlock\<close>.
\<close>

function dispatch_loop :: "worker \<Rightarrow> error + worker" where
  "dispatch_loop w =
     (case get_char Bcast MPI_CHAR w of
        Inl e \<Rightarrow> Inl e
      | Inr (c, w1) \<Rightarrow>
          if NTOKENS \<le> unat c then Inr w1
          else (case (FTABLE ! unat c) w1 of
                  Inl e \<Rightarrow> Inl e
                | Inr w2 \<Rightarrow> dispatch_loop w2))"
  by pat_completeness auto

definition eventloop :: "string \<Rightarrow> worker \<Rightarrow> error + worker" where
  "eventloop progname w0 =
     and_then (dispatch_loop (w0\<lparr>wire := wire w0 @ [Init]\<rparr>)) (\<lambda>w1.
     Inr (w1\<lparr>wire := wire w1 @ [Disconnect, Finalize]\<rparr>))"

text \<open>
  \<open>main\<close>: the exit status, the lines printed and the worker at exit; an exception that
  leaves \<open>eventloop\<close> aborts the process.  The widths that the \<open>info\<close> mode prints are
  those of the data model the worker is built for.
\<close>

datatype outcome = Exit nat "out_item list list" worker | Abort error

definition main :: "string list \<Rightarrow> worker \<Rightarrow> outcome" where
  "main argv w =
     (if length argv = 2 \<and> argv ! 1 = ''info'' then Exit 0 (info (build w)) w
      else if length argv = 2 \<and> argv ! 1 = ''eventloop'' then
        (case eventloop (argv ! 0) w of
           Inl e \<Rightarrow> Abort e
         | Inr w' \<Rightarrow> Exit 0 [] w')
      else Exit 1 [[Str ''syntax: '', Str (case argv of [] \<Rightarrow> [] | a # _ \<Rightarrow> a),
                    Str '' info|eventloop'']] w)"

text \<open>
  A worker at process start: the registries are empty and no vector is allocated (an
  address that was never allocated reads as a vector without slots).  \<open>start_on\<close> gives
  the machine and what its unwritten memory holds; \<open>start\<close> is the start on a little-endian
  LP64 machine (\<open>x86-64\<close>) whose unwritten memory reads as zero.
\<close>

definition start_on ::
  "data_model \<Rightarrow> byte_order \<Rightarrow> (nat \<Rightarrow> nat \<Rightarrow> mpi_int) \<Rightarrow> nat \<Rightarrow> msg list \<Rightarrow> worker" where
  "start_on dm bo mem r deliveries =
     \<lparr>my_rank = r, build = dm, endian = bo, uninit = mem,
      VECTORS = [], MATRICES = [], MAPS = [], GRAPHS = [],
      heap = (\<lambda>_. new_vector_t (new_map_t 0 [] 0)), brk = 0,
      inbox = deliveries, wire = []\<rparr>"

definition start :: "nat \<Rightarrow> msg list \<Rightarrow> worker" where
  "start r deliveries = start_on LP64 LittleEndian (\<lambda>t k. 0) r deliveries"


text \<open>
  Observers of the transcript: the events a handler or a session added, and whether an
  event is a point-to-point receive.
\<close>

fun is_recv :: "event \<Rightarrow> bool" where
  "is_recv (Received c dt n m) = (c = Recv)"
| "is_recv e = False"

definition new_events :: "worker \<Rightarrow> worker \<Rightarrow> event list" where
  "new_events w w' = drop (length (wire w)) (wire w')"


text \<open>
  The handlers of a sequence of command codes, one after the other, as the dispatch loop
  calls them.
\<close>

fun run_handlers :: "nat list \<Rightarrow> worker \<Rightarrow> error + worker" where
  "run_handlers [] w = Inr w"
| "run_handlers (c # cs) w = and_then ((FTABLE ! c) w) (run_handlers cs)"


text \<open>
  The table that the creation command of code \<open>c\<close> appends to, by its length, and the
  handles that a transcript gathers in the rounds of command code \<open>k\<close>: a round starts
  with the broadcast of its command code.
\<close>

definition table_length :: "nat \<Rightarrow> worker \<Rightarrow> nat" where
  "table_length c w =
     (if c = 0 then length (MATRICES w)
      else if c = 1 then length (VECTORS w)
      else if c = 4 then length (MAPS w)
      else if c = 5 then length (GRAPHS w)
      else 0)"

fun gathered_in :: "nat \<Rightarrow> bool \<Rightarrow> event list \<Rightarrow> handle_t list" where
  "gathered_in k active [] = []"
| "gathered_in k active (Received c dt n m # es) =
     (if dt = MPI_CHAR then gathered_in k (m = Chars [of_nat k]) es
      else gathered_in k active es)"
| "gathered_in k active (Gather dt hs # es) =
     (if active then hs else []) @ gathered_in k active es"
| "gathered_in k active (e # es) = gathered_in k active es"


section \<open>Evaluation and inversion of the handlers\<close>

lemma and_then_Inl [simp]: "and_then (Inl e) f = Inl e"
  by (simp add: and_then_def)

lemma and_then_Inr [simp]: "and_then (Inr x) f = f x"
  by (simp add: and_then_def)

lemma and_thenE:
  assumes "and_then r f = Inr y"
  obtains x where "r = Inr x" and "f x = Inr y"
  using assms by (cases r) simp_all

lemma exchange_Cons:
  "inbox w = m # q \<Longrightarrow>
   exchange c dt n w = Inr (m, w\<lparr>inbox := q, wire := wire w @ [Received c dt n m]\<rparr>)"
  by (simp add: exchange_def)

lemma get_char_eval:
  "inbox w = Chars [x] # q \<Longrightarrow>
   get_char c dt w = Inr (x, w\<lparr>inbox := q, wire := wire w @ [Received c dt 1 (Chars [x])]\<rparr>)"
  by (simp add: get_char_def exchange_Cons)

lemma get_handle_eval:
  "inbox w = Handles [x] # q \<Longrightarrow>
   get_handle c dt w = Inr (x, w\<lparr>inbox := q, wire := wire w @ [Received c dt 1 (Handles [x])]\<rparr>)"
  by (simp add: get_handle_def exchange_Cons)

lemma get_size_eval:
  "inbox w = Sizes [x] # q \<Longrightarrow>
   get_size c dt w =
     Inr (size_at w 0 x, w\<lparr>inbox := q, wire := wire w @ [Received c dt 1 (Sizes [x])]\<rparr>)"
  by (simp add: get_size_def exchange_Cons)

lemma get_sizes_eval:
  "inbox w = Sizes xs # q \<Longrightarrow> length xs = n \<Longrightarrow>
   get_sizes c dt n w =
     Inr (sizes_at w 0 xs, w\<lparr>inbox := q, wire := wire w @ [Received c dt n (Sizes xs)]\<rparr>)"
  by (simp add: get_sizes_def exchange_Cons)

lemma get_globals_eval:
  "inbox w = Globals xs # q \<Longrightarrow> length xs = n \<Longrightarrow>
   get_globals c dt n w = Inr (xs, w\<lparr>inbox := q, wire := wire w @ [Received c dt n (Globals xs)]\<rparr>)"
  by (simp add: get_globals_def exchange_Cons)

lemma get_scalars_eval:
  "inbox w = Scalars xs # q \<Longrightarrow> length xs = n \<Longrightarrow>
   get_scalars c dt n w = Inr (xs, w\<lparr>inbox := q, wire := wire w @ [Received c dt n (Scalars xs)]\<rparr>)"
  by (simp add: get_scalars_def exchange_Cons)

lemmas get_eval = get_char_eval get_handle_eval get_size_eval get_sizes_eval
  get_globals_eval get_scalars_eval

lemma get_charE:
  assumes "get_char c dt w = Inr (x, w')"
  obtains q where "inbox w = Chars [x] # q"
    and "w' = w\<lparr>inbox := q, wire := wire w @ [Received c dt 1 (Chars [x])]\<rparr>"
  using assms
  by (cases "inbox w") (auto simp: get_char_def exchange_def split: msg.splits list.splits)

lemma get_handleE:
  assumes "get_handle c dt w = Inr (x, w')"
  obtains q where "inbox w = Handles [x] # q"
    and "w' = w\<lparr>inbox := q, wire := wire w @ [Received c dt 1 (Handles [x])]\<rparr>"
  using assms
  by (cases "inbox w") (auto simp: get_handle_def exchange_def split: msg.splits list.splits)

lemma get_sizeE:
  assumes "get_size c dt w = Inr (x, w')"
  obtains v q where "inbox w = Sizes [v] # q" and "x = size_at w 0 v"
    and "w' = w\<lparr>inbox := q, wire := wire w @ [Received c dt 1 (Sizes [v])]\<rparr>"
  using assms
  by (cases "inbox w") (auto simp: get_size_def exchange_def split: msg.splits list.splits)

lemma get_sizesE:
  assumes "get_sizes c dt n w = Inr (xs, w')"
  obtains vs q where "inbox w = Sizes vs # q" and "length vs = n" and "xs = sizes_at w 0 vs"
    and "w' = w\<lparr>inbox := q, wire := wire w @ [Received c dt n (Sizes vs)]\<rparr>"
  using assms
  by (cases "inbox w") (auto simp: get_sizes_def exchange_def split: msg.splits if_splits)

lemma get_globalsE:
  assumes "get_globals c dt n w = Inr (xs, w')"
  obtains q where "inbox w = Globals xs # q" and "length xs = n"
    and "w' = w\<lparr>inbox := q, wire := wire w @ [Received c dt n (Globals xs)]\<rparr>"
  using assms
  by (cases "inbox w") (auto simp: get_globals_def exchange_def split: msg.splits if_splits)

lemma get_scalarsE:
  assumes "get_scalars c dt n w = Inr (xs, w')"
  obtains q where "inbox w = Scalars xs # q" and "length xs = n"
    and "w' = w\<lparr>inbox := q, wire := wire w @ [Received c dt n (Scalars xs)]\<rparr>"
  using assms
  by (cases "inbox w") (auto simp: get_scalars_def exchange_def split: msg.splits if_splits)

lemmas getE = get_charE get_handleE get_sizeE get_sizesE get_globalsE get_scalarsE

lemma length_pairs_of: "length (pairs_of xs) = length xs div 2"
  by (induction xs rule: pairs_of.induct) simp_all

lemma length_store_ints:
  "length rest = length xs \<Longrightarrow> length (store_ints dm bo rest xs) = length xs"
  by (simp add: store_ints_def length_pairs_of)

lemma length_sizes_at [simp]: "length (sizes_at w k xs) = length xs"
  by (simp add: sizes_at_def length_store_ints)

lemma size_at_later:
  "size_at (w\<lparr>inbox := q, wire := wire w @ es\<rparr>) k x = size_at w (length es + k) x"
  by (simp add: size_at_def add.assoc)

lemma size_at_after:
  "build u = build w \<Longrightarrow> endian u = endian w \<Longrightarrow> uninit u = uninit w \<Longrightarrow>
   length (wire u) = length (wire w) + d \<Longrightarrow> size_at u k x = size_at w (d + k) x"
  by (simp add: size_at_def add.assoc)

lemma sizes_at_later:
  "sizes_at (w\<lparr>inbox := q, wire := wire w @ es\<rparr>) k xs = sizes_at w (length es + k) xs"
  by (simp add: sizes_at_def add.assoc)

lemma at_handle_eq_Inr:
  "at_handle xs h = Inr x \<longleftrightarrow> in_bounds xs h \<and> x = xs ! nat (sint h)"
  by (auto simp: at_handle_def)

lemma at_handle_eval: "in_bounds xs h \<Longrightarrow> at_handle xs h = Inr (xs ! nat (sint h))"
  by (simp add: at_handle_def)

lemma at_handle_out: "\<not> in_bounds xs h \<Longrightarrow> at_handle xs h = Inl InvalidHandle"
  by (simp add: at_handle_def)


lemma new_matrix_eval:
  "inbox w = Handles [igraph] # q \<Longrightarrow> in_bounds (GRAPHS w) igraph \<Longrightarrow>
   new_matrix w =
     Inr (w\<lparr>MATRICES := MATRICES w @ [new_matrix_t (GRAPHS w ! nat (sint igraph))],
            inbox := q,
            wire := wire w @ [Received Bcast MPI_HANDLE 1 (Handles [igraph]),
                              Gather MPI_HANDLE [size_to_handle (length (MATRICES w))]]\<rparr>)"
  by (simp add: new_matrix_def get_eval at_handle_eval gather_def)

lemma new_matrixE:
  assumes "new_matrix w = Inr w'"
  obtains igraph q where "inbox w = Handles [igraph] # q" and "in_bounds (GRAPHS w) igraph"
    and "w' = w\<lparr>MATRICES := MATRICES w @ [new_matrix_t (GRAPHS w ! nat (sint igraph))],
            inbox := q,
            wire := wire w @ [Received Bcast MPI_HANDLE 1 (Handles [igraph]),
                              Gather MPI_HANDLE [size_to_handle (length (MATRICES w))]]\<rparr>"
  using assms
  by (auto simp: new_matrix_def at_handle_eq_Inr gather_def elim!: and_thenE getE)

lemma new_vector_eval:
  "inbox w = Handles [imap] # q \<Longrightarrow> in_bounds (MAPS w) imap \<Longrightarrow>
   new_vector w =
     Inr (w\<lparr>VECTORS := VECTORS w @ [brk w],
            heap := (heap w)(brk w := new_vector_t (MAPS w ! nat (sint imap))),
            brk := Suc (brk w),
            inbox := q,
            wire := wire w @ [Received Bcast MPI_HANDLE 1 (Handles [imap]),
                              Gather MPI_HANDLE [size_to_handle (length (VECTORS w))]]\<rparr>)"
  by (simp add: new_vector_def get_eval at_handle_eval gather_def)

lemma new_vectorE:
  assumes "new_vector w = Inr w'"
  obtains imap q where "inbox w = Handles [imap] # q" and "in_bounds (MAPS w) imap"
    and "w' = w\<lparr>VECTORS := VECTORS w @ [brk w],
            heap := (heap w)(brk w := new_vector_t (MAPS w ! nat (sint imap))),
            brk := Suc (brk w),
            inbox := q,
            wire := wire w @ [Received Bcast MPI_HANDLE 1 (Handles [imap]),
                              Gather MPI_HANDLE [size_to_handle (length (VECTORS w))]]\<rparr>"
  using assms
  by (auto simp: new_vector_def at_handle_eq_Inr gather_def elim!: and_thenE getE)

lemma get_vector_eval:
  "inbox w = Handles [ivec] # q \<Longrightarrow> in_bounds (VECTORS w) ivec \<Longrightarrow>
   get_vector w =
     Inr (w\<lparr>inbox := q,
            wire := wire w @ [Received Bcast MPI_HANDLE 1 (Handles [ivec]),
               Gatherv MPI_SCALAR (getData (heap w (VECTORS w ! nat (sint ivec))))]\<rparr>)"
  by (simp add: get_vector_def get_eval at_handle_eval gatherv_def)

lemma get_vectorE:
  assumes "get_vector w = Inr w'"
  obtains ivec q where "inbox w = Handles [ivec] # q" and "in_bounds (VECTORS w) ivec"
    and "w' = w\<lparr>inbox := q,
            wire := wire w @ [Received Bcast MPI_HANDLE 1 (Handles [ivec]),
               Gatherv MPI_SCALAR (getData (heap w (VECTORS w ! nat (sint ivec))))]\<rparr>"
  using assms
  by (auto simp: get_vector_def at_handle_eq_Inr gatherv_def elim!: and_thenE getE)

lemma new_map_eval:
  "inbox w = Sizes [sz] # Sizes [ndofs] # Globals elements # q \<Longrightarrow>
   length elements = size_at w 1 ndofs \<Longrightarrow>
   new_map w =
     Inr (w\<lparr>MAPS := MAPS w @ [new_map_t (size_at w 0 sz) elements 0],
            inbox := q,
            wire := wire w @ [Received Bcast MPI_SIZE 1 (Sizes [sz]),
                              Received Scatter MPI_SIZE 1 (Sizes [ndofs]),
                              Received Scatterv MPI_GLOBAL (size_at w 1 ndofs) (Globals elements),
                              Gather MPI_HANDLE [size_to_handle (length (MAPS w))]]\<rparr>)"
  by (simp add: new_map_def get_eval gather_def size_at_later)

lemma new_mapE:
  assumes "new_map w = Inr w'"
  obtains sz ndofs elements q
  where "inbox w = Sizes [sz] # Sizes [ndofs] # Globals elements # q"
    and "length elements = size_at w 1 ndofs"
    and "w' = w\<lparr>MAPS := MAPS w @ [new_map_t (size_at w 0 sz) elements 0],
            inbox := q,
            wire := wire w @ [Received Bcast MPI_SIZE 1 (Sizes [sz]),
                              Received Scatter MPI_SIZE 1 (Sizes [ndofs]),
                              Received Scatterv MPI_GLOBAL (size_at w 1 ndofs) (Globals elements),
                              Gather MPI_HANDLE [size_to_handle (length (MAPS w))]]\<rparr>"
  using assms
  by (auto simp: new_map_def gather_def size_at_later elim!: and_thenE getE)

lemma add_evec_other:
  "inbox w = Sizes [target] # q \<Longrightarrow> size_at w 0 target \<noteq> my_rank w \<Longrightarrow>
   add_evec w =
     Inr (w\<lparr>inbox := q, wire := wire w @ [Received Bcast MPI_SIZE 1 (Sizes [target])]\<rparr>)"
  by (simp add: add_evec_def get_eval)

lemma add_evec_target:
  "inbox w = Sizes [target] # Handles [ivec] # Sizes [nitems] # Globals idx # Scalars data # q \<Longrightarrow>
   size_at w 0 target = my_rank w \<Longrightarrow>
   length idx = size_at w 2 nitems \<Longrightarrow> length data = size_at w 2 nitems \<Longrightarrow>
   add_evec w =
     and_then (at_handle (VECTORS w) ivec) (\<lambda>addr.
     and_then (sum_into idx data [0..<size_at w 2 nitems] (heap w addr)) (\<lambda>vec.
       Inr (w\<lparr>inbox := q,
              wire := wire w @ [Received Bcast MPI_SIZE 1 (Sizes [target]),
                                Received Recv MPI_HANDLE 1 (Handles [ivec]),
                                Received Recv MPI_SIZE 1 (Sizes [nitems]),
                                Received Recv MPI_GLOBAL (size_at w 2 nitems) (Globals idx),
                                Received Recv MPI_SCALAR (size_at w 2 nitems) (Scalars data)],
              heap := (heap w)(addr := vec)\<rparr>)))"
  by (simp add: add_evec_def get_eval size_at_later eval_nat_numeral)

lemma add_evecE:
  assumes "add_evec w = Inr w'"
  obtains target q where "inbox w = Sizes [target] # q" and "size_at w 0 target \<noteq> my_rank w"
  | target ivec nitems idx data q where
      "inbox w = Sizes [target] # Handles [ivec] # Sizes [nitems] # Globals idx # Scalars data # q"
      and "size_at w 0 target = my_rank w"
      and "length idx = size_at w 2 nitems" and "length data = size_at w 2 nitems"
  using assms
  by (auto simp: add_evec_def size_at_later eval_nat_numeral split: if_splits
      elim!: and_thenE getE)

lemma new_graph_eval:
  "inbox w = Handles [imap] # Sizes counts # Globals items # q \<Longrightarrow>
   in_bounds (MAPS w) imap \<Longrightarrow>
   m = MAPS w ! nat (sint imap) \<Longrightarrow>
   length counts = getNodeNumElements m \<Longrightarrow>
   numcols = sizes_at w 1 counts \<Longrightarrow>
   nitems = count_items numcols [0..<getNodeNumElements m] 0 \<Longrightarrow>
   0 \<le> sint nitems \<Longrightarrow>
   length items = nat (sint nitems) \<Longrightarrow>
   new_graph w =
     and_then (insert_rows numcols items [0..<getNodeNumElements m] 0 (new_graph_t m numcols))
       (\<lambda>graph.
         Inr (w\<lparr>inbox := q,
                GRAPHS := GRAPHS w @ [fillComplete graph],
                wire := wire w @
                  [Received Bcast MPI_HANDLE 1 (Handles [imap]),
                   Received Scatterv MPI_SIZE (getNodeNumElements m) (Sizes counts),
                   Received Scatterv MPI_GLOBAL (nat (sint nitems)) (Globals items),
                   Gather MPI_HANDLE [size_to_handle (length (GRAPHS w))]]\<rparr>))"
  by (simp add: new_graph_def get_eval at_handle_eval gather_def Let_def sizes_at_later)

lemma new_graphE:
  assumes "new_graph w = Inr w'"
  obtains imap counts items q where
    "inbox w = Handles [imap] # Sizes counts # Globals items # q"
    and "in_bounds (MAPS w) imap"
    and "length counts = getNodeNumElements (MAPS w ! nat (sint imap))"
    and "0 \<le> sint (count_items (sizes_at w 1 counts)
                  [0..<getNodeNumElements (MAPS w ! nat (sint imap))] 0)"
    and "length items =
           nat (sint (count_items (sizes_at w 1 counts)
                  [0..<getNodeNumElements (MAPS w ! nat (sint imap))] 0))"
  using assms
  by (auto simp: new_graph_def Let_def at_handle_eq_Inr sizes_at_later split: if_splits
      elim!: and_thenE getE)


lemma add_evec_cases:
  assumes "add_evec w = Inr w'"
  obtains (other) target q where "inbox w = Sizes [target] # q"
      and "size_at w 0 target \<noteq> my_rank w"
      and "w' = w\<lparr>inbox := q, wire := wire w @ [Received Bcast MPI_SIZE 1 (Sizes [target])]\<rparr>"
  | (target) target ivec nitems idx data q vec where
      "inbox w = Sizes [target] # Handles [ivec] # Sizes [nitems] # Globals idx # Scalars data # q"
      and "size_at w 0 target = my_rank w"
      and "length idx = size_at w 2 nitems" and "length data = size_at w 2 nitems"
      and "in_bounds (VECTORS w) ivec"
      and "sum_into idx data [0..<size_at w 2 nitems] (heap w (VECTORS w ! nat (sint ivec))) =
             Inr vec"
      and "w' = w\<lparr>inbox := q,
              wire := wire w @ [Received Bcast MPI_SIZE 1 (Sizes [target]),
                                Received Recv MPI_HANDLE 1 (Handles [ivec]),
                                Received Recv MPI_SIZE 1 (Sizes [nitems]),
                                Received Recv MPI_GLOBAL (size_at w 2 nitems) (Globals idx),
                                Received Recv MPI_SCALAR (size_at w 2 nitems) (Scalars data)],
              heap := (heap w)(VECTORS w ! nat (sint ivec) := vec)\<rparr>"
  using assms
proof (cases rule: add_evecE)
  case (1 target q)
  with assms other show ?thesis by (auto simp: add_evec_other)
next
  case (2 target ivec nitems idx data q)
  from assms obtain addr vec where
    a: "at_handle (VECTORS w) ivec = Inr addr"
    and v: "sum_into idx data [0..<size_at w 2 nitems] (heap w addr) = Inr vec"
    and w': "w' = w\<lparr>inbox := q,
              wire := wire w @ [Received Bcast MPI_SIZE 1 (Sizes [target]),
                                Received Recv MPI_HANDLE 1 (Handles [ivec]),
                                Received Recv MPI_SIZE 1 (Sizes [nitems]),
                                Received Recv MPI_GLOBAL (size_at w 2 nitems) (Globals idx),
                                Received Recv MPI_SCALAR (size_at w 2 nitems) (Scalars data)],
              heap := (heap w)(addr := vec)\<rparr>"
    unfolding add_evec_target [OF 2] by (auto elim!: and_thenE)
  from a have "in_bounds (VECTORS w) ivec" "addr = VECTORS w ! nat (sint ivec)"
    by (simp_all add: at_handle_eq_Inr)
  with target [OF 2 this(1)] v w' show ?thesis by simp
qed

lemma new_graph_cases:
  assumes "new_graph w = Inr w'"
  obtains imap counts items q graph where
    "inbox w = Handles [imap] # Sizes counts # Globals items # q"
    and "in_bounds (MAPS w) imap"
    and "length counts = getNodeNumElements (MAPS w ! nat (sint imap))"
    and "0 \<le> sint (count_items (sizes_at w 1 counts)
                  [0..<getNodeNumElements (MAPS w ! nat (sint imap))] 0)"
    and "length items =
           nat (sint (count_items (sizes_at w 1 counts)
                  [0..<getNodeNumElements (MAPS w ! nat (sint imap))] 0))"
    and "insert_rows (sizes_at w 1 counts) items
           [0..<getNodeNumElements (MAPS w ! nat (sint imap))] 0
           (new_graph_t (MAPS w ! nat (sint imap)) (sizes_at w 1 counts)) = Inr graph"
    and "w' = w\<lparr>inbox := q,
                GRAPHS := GRAPHS w @ [fillComplete graph],
                wire := wire w @
                  [Received Bcast MPI_HANDLE 1 (Handles [imap]),
                   Received Scatterv MPI_SIZE (getNodeNumElements (MAPS w ! nat (sint imap)))
                     (Sizes counts),
                   Received Scatterv MPI_GLOBAL (length items) (Globals items),
                   Gather MPI_HANDLE [size_to_handle (length (GRAPHS w))]]\<rparr>"
  using assms
proof (cases rule: new_graphE)
  case (1 imap counts items q)
  from assms that [OF 1] show ?thesis
    by (auto simp: new_graph_eval [OF 1(1,2) refl 1(3) refl refl 1(4,5)] 1(5) elim!: and_thenE)
qed

lemma new_matrix_iff:
  "new_matrix w = Inr w' \<longleftrightarrow>
     (\<exists>igraph q. inbox w = Handles [igraph] # q \<and> in_bounds (GRAPHS w) igraph \<and>
        w' = w\<lparr>MATRICES := MATRICES w @ [new_matrix_t (GRAPHS w ! nat (sint igraph))],
               inbox := q,
               wire := wire w @ [Received Bcast MPI_HANDLE 1 (Handles [igraph]),
                                 Gather MPI_HANDLE [size_to_handle (length (MATRICES w))]]\<rparr>)"
  by (auto elim: new_matrixE simp: new_matrix_eval)

lemma new_vector_iff:
  "new_vector w = Inr w' \<longleftrightarrow>
     (\<exists>imap q. inbox w = Handles [imap] # q \<and> in_bounds (MAPS w) imap \<and>
        w' = w\<lparr>VECTORS := VECTORS w @ [brk w],
               heap := (heap w)(brk w := new_vector_t (MAPS w ! nat (sint imap))),
               brk := Suc (brk w),
               inbox := q,
               wire := wire w @ [Received Bcast MPI_HANDLE 1 (Handles [imap]),
                                 Gather MPI_HANDLE [size_to_handle (length (VECTORS w))]]\<rparr>)"
  by (auto elim: new_vectorE simp: new_vector_eval)

lemma get_vector_iff:
  "get_vector w = Inr w' \<longleftrightarrow>
     (\<exists>ivec q. inbox w = Handles [ivec] # q \<and> in_bounds (VECTORS w) ivec \<and>
        w' = w\<lparr>inbox := q,
               wire := wire w @ [Received Bcast MPI_HANDLE 1 (Handles [ivec]),
                  Gatherv MPI_SCALAR (getData (heap w (VECTORS w ! nat (sint ivec))))]\<rparr>)"
  by (auto elim: get_vectorE simp: get_vector_eval)

lemma new_map_iff:
  "new_map w = Inr w' \<longleftrightarrow>
     (\<exists>sz ndofs elements q.
        inbox w = Sizes [sz] # Sizes [ndofs] # Globals elements # q \<and>
        length elements = size_at w 1 ndofs \<and>
        w' = w\<lparr>MAPS := MAPS w @ [new_map_t (size_at w 0 sz) elements 0],
               inbox := q,
               wire := wire w @ [Received Bcast MPI_SIZE 1 (Sizes [sz]),
                                 Received Scatter MPI_SIZE 1 (Sizes [ndofs]),
                                 Received Scatterv MPI_GLOBAL (size_at w 1 ndofs)
                                   (Globals elements),
                                 Gather MPI_HANDLE [size_to_handle (length (MAPS w))]]\<rparr>)"
  by (auto elim: new_mapE simp: new_map_eval)

lemma add_evec_iff:
  "add_evec w = Inr w' \<longleftrightarrow>
     (\<exists>target q. inbox w = Sizes [target] # q \<and> size_at w 0 target \<noteq> my_rank w \<and>
        w' = w\<lparr>inbox := q, wire := wire w @ [Received Bcast MPI_SIZE 1 (Sizes [target])]\<rparr>) \<or>
     (\<exists>target ivec nitems idx data q vec.
        inbox w = Sizes [target] # Handles [ivec] # Sizes [nitems] # Globals idx #
                  Scalars data # q \<and>
        size_at w 0 target = my_rank w \<and>
        length idx = size_at w 2 nitems \<and> length data = size_at w 2 nitems \<and>
        in_bounds (VECTORS w) ivec \<and>
        sum_into idx data [0..<size_at w 2 nitems] (heap w (VECTORS w ! nat (sint ivec))) =
          Inr vec \<and>
        w' = w\<lparr>inbox := q,
               wire := wire w @ [Received Bcast MPI_SIZE 1 (Sizes [target]),
                                 Received Recv MPI_HANDLE 1 (Handles [ivec]),
                                 Received Recv MPI_SIZE 1 (Sizes [nitems]),
                                 Received Recv MPI_GLOBAL (size_at w 2 nitems) (Globals idx),
                                 Received Recv MPI_SCALAR (size_at w 2 nitems) (Scalars data)],
               heap := (heap w)(VECTORS w ! nat (sint ivec) := vec)\<rparr>)"
  (is "?l \<longleftrightarrow> ?a \<or> ?b")
proof
  assume ?l
  then show "?a \<or> ?b"
  proof (cases rule: add_evec_cases)
    case other
    then have ?a by blast
    then show ?thesis ..
  next
    case target
    then have ?b by blast
    then show ?thesis ..
  qed
next
  assume "?a \<or> ?b"
  then show ?l
  proof
    assume ?a
    then show ?l by (auto simp: add_evec_other)
  next
    assume ?b
    then obtain target ivec nitems idx data q vec where
      i: "inbox w = Sizes [target] # Handles [ivec] # Sizes [nitems] # Globals idx #
                  Scalars data # q"
        "size_at w 0 target = my_rank w"
        "length idx = size_at w 2 nitems" "length data = size_at w 2 nitems"
      and r: "in_bounds (VECTORS w) ivec"
        "sum_into idx data [0..<size_at w 2 nitems] (heap w (VECTORS w ! nat (sint ivec))) =
          Inr vec"
        "w' = w\<lparr>inbox := q,
               wire := wire w @ [Received Bcast MPI_SIZE 1 (Sizes [target]),
                                 Received Recv MPI_HANDLE 1 (Handles [ivec]),
                                 Received Recv MPI_SIZE 1 (Sizes [nitems]),
                                 Received Recv MPI_GLOBAL (size_at w 2 nitems) (Globals idx),
                                 Received Recv MPI_SCALAR (size_at w 2 nitems) (Scalars data)],
               heap := (heap w)(VECTORS w ! nat (sint ivec) := vec)\<rparr>"
      by blast
    show ?l
      unfolding add_evec_target [OF i] using r by (simp add: at_handle_eval)
  qed
qed

lemma new_graph_iff:
  "new_graph w = Inr w' \<longleftrightarrow>
     (\<exists>imap counts items q graph.
        inbox w = Handles [imap] # Sizes counts # Globals items # q \<and>
        in_bounds (MAPS w) imap \<and>
        length counts = getNodeNumElements (MAPS w ! nat (sint imap)) \<and>
        0 \<le> sint (count_items (sizes_at w 1 counts)
                 [0..<getNodeNumElements (MAPS w ! nat (sint imap))] 0) \<and>
        length items =
          nat (sint (count_items (sizes_at w 1 counts)
                 [0..<getNodeNumElements (MAPS w ! nat (sint imap))] 0)) \<and>
        insert_rows (sizes_at w 1 counts) items
          [0..<getNodeNumElements (MAPS w ! nat (sint imap))] 0
          (new_graph_t (MAPS w ! nat (sint imap)) (sizes_at w 1 counts)) = Inr graph \<and>
        w' = w\<lparr>inbox := q,
               GRAPHS := GRAPHS w @ [fillComplete graph],
               wire := wire w @
                 [Received Bcast MPI_HANDLE 1 (Handles [imap]),
                  Received Scatterv MPI_SIZE (getNodeNumElements (MAPS w ! nat (sint imap)))
                    (Sizes counts),
                  Received Scatterv MPI_GLOBAL (length items) (Globals items),
                  Gather MPI_HANDLE [size_to_handle (length (GRAPHS w))]]\<rparr>)"
  (is "?l \<longleftrightarrow> ?r")
proof
  assume ?l
  then show ?r
    by (cases rule: new_graph_cases) blast
next
  assume ?r
  then obtain imap counts items q graph where
    a: "inbox w = Handles [imap] # Sizes counts # Globals items # q"
      "in_bounds (MAPS w) imap"
      "length counts = getNodeNumElements (MAPS w ! nat (sint imap))"
      "0 \<le> sint (count_items (sizes_at w 1 counts)
                 [0..<getNodeNumElements (MAPS w ! nat (sint imap))] 0)"
      "length items =
          nat (sint (count_items (sizes_at w 1 counts)
                 [0..<getNodeNumElements (MAPS w ! nat (sint imap))] 0))"
    and b: "insert_rows (sizes_at w 1 counts) items
          [0..<getNodeNumElements (MAPS w ! nat (sint imap))] 0
          (new_graph_t (MAPS w ! nat (sint imap)) (sizes_at w 1 counts)) = Inr graph"
    and c: "w' = w\<lparr>inbox := q,
               GRAPHS := GRAPHS w @ [fillComplete graph],
               wire := wire w @
                 [Received Bcast MPI_HANDLE 1 (Handles [imap]),
                  Received Scatterv MPI_SIZE (getNodeNumElements (MAPS w ! nat (sint imap)))
                    (Sizes counts),
                  Received Scatterv MPI_GLOBAL (length items) (Globals items),
                  Gather MPI_HANDLE [size_to_handle (length (GRAPHS w))]]\<rparr>"
    by blast
  show ?l
    using b by (simp add: new_graph_eval [OF a(1,2) refl a(3) refl refl a(4,5)] c a(5))
qed


lemma count_items_sum:
  "count_items numcols rows nitems = nitems + of_nat (sum_list (map ((!) numcols) rows))"
  by (induction rows arbitrary: nitems) (simp_all add: algebra_simps)

lemma count_items_all:
  "n = length numcols \<Longrightarrow> count_items numcols [0..<n] 0 = of_nat (sum_list numcols)"
  by (simp add: count_items_sum map_nth)

lemma view_eq_Inr:
  "view xs offset sz = Inr ys \<Longrightarrow>
     ys = take sz (drop offset xs) \<and> (sz = 0 \<or> offset + sz \<le> length xs)"
  by (auto simp: view_def split: if_splits)

lemma insert_rows_effect:
  "insert_rows numcols items rows offset g = Inr g' \<Longrightarrow>
   graph_inserted g' =
     graph_inserted g @
       map (\<lambda>j. (of_nat (rows ! j),
                  take (numcols ! (rows ! j))
                    (drop (offset + sum_list (map ((!) numcols) (take j rows))) items)))
         [0..<length rows] \<and>
   graph_map g' = graph_map g \<and> graph_numcols g' = graph_numcols g \<and>
   graph_filled g' = graph_filled g"
proof (induction rows arbitrary: offset g)
  case Nil
  then show ?case by simp
next
  case (Cons irow rows)
  from Cons.prems obtain cols where
    v: "view items offset (numcols ! irow) = Inr cols"
    and r: "insert_rows numcols items rows (offset + numcols ! irow)
              (insertGlobalIndices (of_nat irow) cols g) = Inr g'"
    by (auto simp: Let_def elim!: and_thenE)
  note ih = Cons.IH [OF r]
  from view_eq_Inr [OF v] have cols: "cols = take (numcols ! irow) (drop offset items)"
    by simp
  have eq: "map (\<lambda>j. (of_nat ((irow # rows) ! j),
                  take (numcols ! ((irow # rows) ! j))
                    (drop (offset + sum_list (map ((!) numcols) (take j (irow # rows)))) items)))
         [0..<length (irow # rows)] =
        (of_nat irow, cols) #
        map (\<lambda>j. (of_nat (rows ! j),
                  take (numcols ! (rows ! j))
                    (drop (offset + numcols ! irow + sum_list (map ((!) numcols) (take j rows)))
                       items)))
         [0..<length rows]"
    by (simp add: upt_conv_Cons [of 0] map_Suc_upt [symmetric] cols add.assoc
        del: upt_Suc)
  from ih show ?case
    unfolding eq by (simp add: insertGlobalIndices_def)
qed

lemma insert_rows_range:
  "insert_rows numcols items rows offset g = Inr g' \<Longrightarrow>
   sum_list (map ((!) numcols) rows) = 0 \<or>
   offset + sum_list (map ((!) numcols) rows) \<le> length items"
proof (induction rows arbitrary: offset g)
  case Nil
  then show ?case by simp
next
  case (Cons irow rows)
  from Cons.prems obtain cols where
    v: "view items offset (numcols ! irow) = Inr cols"
    and r: "insert_rows numcols items rows (offset + numcols ! irow)
              (insertGlobalIndices (of_nat irow) cols g) = Inr g'"
    by (auto simp: Let_def elim!: and_thenE)
  define S where "S = sum_list (map ((!) numcols) rows)"
  from Cons.IH [OF r] have "S = 0 \<or> offset + numcols ! irow + S \<le> length items"
    by (simp add: S_def)
  moreover from view_eq_Inr [OF v]
  have "numcols ! irow = 0 \<or> offset + numcols ! irow \<le> length items"
    by simp
  ultimately have "numcols ! irow + S = 0 \<or> offset + (numcols ! irow + S) \<le> length items"
    by arith
  then show ?case by (simp add: S_def)
qed

lemma sint_of_nat_small: "n < 2 ^ 31 \<Longrightarrow> sint (of_nat n :: 32 word) = int n"
  by (simp add: signed_of_nat signed_take_bit_int_eq_self)

text \<open>What a returning \<open>new_graph\<close> stores.\<close>

lemma new_graph_effect:
  assumes "new_graph w = Inr w'"
  obtains imap counts numcols items q where
    "inbox w = Handles [imap] # Sizes counts # Globals items # q"
    and "in_bounds (MAPS w) imap"
    and "length counts = getNodeNumElements (MAPS w ! nat (sint imap))"
    and "numcols = sizes_at w 1 counts"
    and "length items = sum_list numcols"
    and "GRAPHS w' = GRAPHS w @
           [\<lparr>graph_map = MAPS w ! nat (sint imap), graph_numcols = numcols,
             graph_inserted =
               map (\<lambda>irow. (of_nat irow,
                       take (numcols ! irow) (drop (sum_list (take irow numcols)) items)))
                 [0..<length numcols],
             graph_filled = True\<rparr>]"
  using assms
proof (cases rule: new_graph_cases)
  case (1 imap counts items q graph)
  let ?m = "MAPS w ! nat (sint imap)"
  let ?n = "getNodeNumElements ?m"
  define numcols where "numcols = sizes_at w 1 counts"
  have n: "?n = length numcols" using 1(3) by (simp add: numcols_def)
  have nit: "count_items numcols [0..<?n] 0 = of_nat (sum_list numcols)"
    using n by (simp add: count_items_all)
  have len_lt: "length items < 2 ^ 31"
  proof -
    have "sint (of_nat (sum_list numcols) :: 32 word) < 2 ^ 31"
      using sint_lt [of "of_nat (sum_list numcols) :: 32 word"] by simp
    with 1(4,5) nit show ?thesis by (simp add: numcols_def)
  qed
  have ir: "insert_rows numcols items [0..<length numcols] 0 (new_graph_t ?m numcols) =
      Inr graph"
    using 1(6) n by (simp add: numcols_def)
  define S where "S = sum_list numcols"
  from insert_rows_range [OF ir]
  have "S = 0 \<or> S \<le> length items"
    by (simp add: map_nth S_def)
  with len_lt have "S < 2 ^ 31" by arith
  then have "sum_list numcols < 2 ^ 31" by (simp add: S_def)
  then have "sint (of_nat (sum_list numcols) :: 32 word) = int (sum_list numcols)"
    by (rule sint_of_nat_small)
  with 1(5) nit have len: "length items = sum_list numcols" by (simp add: numcols_def)
  have take_eq: "map ((!) numcols) (take j [0..<length numcols]) = take j numcols" for j
    by (simp add: take_map [symmetric] map_nth)
  from insert_rows_effect [OF ir]
  have "graph = \<lparr>graph_map = ?m, graph_numcols = numcols,
             graph_inserted =
               map (\<lambda>irow. (of_nat irow,
                       take (numcols ! irow) (drop (sum_list (take irow numcols)) items)))
                 [0..<length numcols],
             graph_filled = False\<rparr>"
    by (simp add: new_graph_t_def take_eq cong: map_cong)
  then have "GRAPHS w' = GRAPHS w @
           [\<lparr>graph_map = ?m, graph_numcols = numcols,
             graph_inserted =
               map (\<lambda>irow. (of_nat irow,
                       take (numcols ! irow) (drop (sum_list (take irow numcols)) items)))
                 [0..<length numcols],
             graph_filled = True\<rparr>]"
    using 1(7) by (simp add: fillComplete_def)
  with that [OF 1(1,2,3) numcols_def len] show ?thesis by simp
qed


lemma size_at_ILP32: "build w = ILP32 \<Longrightarrow> size_at w k x = unat x"
  by (simp add: size_at_def store_int_def MPI_SIZE_def)

lemma size_at_LP64:
  "build w = LP64 \<Longrightarrow> endian w = LittleEndian \<Longrightarrow>
   size_at w k x = unat x + 2 ^ 32 * unat (uninit w (length (wire w) + k) 0)"
  by (simp add: size_at_def store_int_def MPI_SIZE_def join_halves_def)

lemma size_at_zero:
  "endian w = LittleEndian \<Longrightarrow> uninit w (length (wire w) + k) 0 = 0 \<Longrightarrow>
   size_at w k x = unat x"
  by (simp add: size_at_def store_int_def join_halves_def)

lemma sint_size_to_handle: "n < 2 ^ 31 \<Longrightarrow> sint (size_to_handle n) = int n"
  by (simp add: size_to_handle_def sint_of_nat_small)

lemma in_bounds_fresh:
  "length xs < 2 ^ 31 \<Longrightarrow> in_bounds (xs @ [a]) (size_to_handle (length xs))"
  by (simp add: in_bounds_def sint_size_to_handle)

lemma nth_fresh:
  "length xs < 2 ^ 31 \<Longrightarrow> (xs @ [a]) ! nat (sint (size_to_handle (length xs))) = a"
  by (simp add: sint_size_to_handle)

lemma first_index_Some:
  "first_index xs g = Some k \<Longrightarrow> k < length xs \<and> xs ! k = g"
  by (induction xs arbitrary: k) (auto split: if_splits)

lemma sum_into_single:
  "sum_into [i] [v] [0..<Suc 0] vec = sumIntoGlobalValue i v vec"
  by (cases "sumIntoGlobalValue i v vec") simp_all

lemma NTOKENS_6: "NTOKENS = 6"
  by (simp add: NTOKENS_def FTABLE_def)

lemma below_6: "n < 6 \<Longrightarrow> n = 0 \<or> n = 1 \<or> n = 2 \<or> n = 3 \<or> n = 4 \<or> n = (5::nat)"
  by arith

lemma handler_inbox:
  assumes "n < NTOKENS" and "(FTABLE ! n) w = Inr w'"
  shows "length (inbox w') \<le> length (inbox w)"
proof -
  from assms(1) have "n = 0 \<or> n = 1 \<or> n = 2 \<or> n = 3 \<or> n = 4 \<or> n = 5"
    unfolding NTOKENS_6 by (rule below_6)
  then show ?thesis
  proof (elim disjE)
    assume "n = 0"
    with assms(2) have "new_matrix w = Inr w'" by (simp add: FTABLE_def)
    then show ?thesis
      by (elim new_matrixE) simp
  next
    assume "n = 1"
    with assms(2) have "new_vector w = Inr w'" by (simp add: FTABLE_def)
    then show ?thesis
      by (elim new_vectorE) simp
  next
    assume "n = 2"
    with assms(2) have *: "add_evec w = Inr w'" by (simp add: FTABLE_def)
    then show ?thesis
      by (cases rule: add_evec_cases) simp_all
  next
    assume "n = 3"
    with assms(2) have "get_vector w = Inr w'" by (simp add: FTABLE_def)
    then show ?thesis
      by (elim get_vectorE) simp
  next
    assume "n = 4"
    with assms(2) have "new_map w = Inr w'" by (simp add: FTABLE_def)
    then show ?thesis
      by (elim new_mapE) simp
  next
    assume "n = 5"
    with assms(2) have *: "new_graph w = Inr w'" by (simp add: FTABLE_def)
    then show ?thesis
      by (cases rule: new_graph_cases) simp
  qed
qed

lemma vector_kept:
  assumes "n < 6" and "n \<noteq> 2" and "(FTABLE ! n) w = Inr w'"
    and "j < length (VECTORS w)" and "VECTORS w ! j < brk w"
  shows "j < length (VECTORS w') \<and> VECTORS w' ! j = VECTORS w ! j \<and>
         VECTORS w' ! j < brk w' \<and> heap w' (VECTORS w' ! j) = heap w (VECTORS w ! j)"
proof -
  from assms(1,2) have "n = 0 \<or> n = 1 \<or> n = 3 \<or> n = 4 \<or> n = 5"
    by arith
  then show ?thesis
  proof (elim disjE)
    assume n: "n = 0"
    with assms(3) have "new_matrix w = Inr w'" by (simp add: FTABLE_def)
    then show ?thesis using assms(4,5) by (elim new_matrixE) simp
  next
    assume n: "n = 1"
    with assms(3) have "new_vector w = Inr w'" by (simp add: FTABLE_def)
    then show ?thesis using assms(4,5) by (elim new_vectorE) (simp add: nth_append)
  next
    assume n: "n = 3"
    with assms(3) have "get_vector w = Inr w'" by (simp add: FTABLE_def)
    then show ?thesis using assms(4,5) by (elim get_vectorE) simp
  next
    assume n: "n = 4"
    with assms(3) have "new_map w = Inr w'" by (simp add: FTABLE_def)
    then show ?thesis using assms(4,5) by (elim new_mapE) simp
  next
    assume n: "n = 5"
    with assms(3) have "new_graph w = Inr w'" by (simp add: FTABLE_def)
    then show ?thesis using assms(4,5) by (cases rule: new_graph_cases) simp
  qed
qed

lemma run_handlers_vector_kept:
  "run_handlers cs w = Inr w' \<Longrightarrow> \<forall>c\<in>set cs. c < 6 \<and> c \<noteq> 2 \<Longrightarrow>
   j < length (VECTORS w) \<Longrightarrow> VECTORS w ! j < brk w \<Longrightarrow>
   j < length (VECTORS w') \<and> VECTORS w' ! j = VECTORS w ! j \<and>
   heap w' (VECTORS w' ! j) = heap w (VECTORS w ! j)"
proof (induction cs arbitrary: w)
  case Nil
  then show ?case by simp
next
  case (Cons c cs)
  from Cons.prems(1) obtain w1 where
    s: "(FTABLE ! c) w = Inr w1" and r: "run_handlers cs w1 = Inr w'"
    by (auto elim!: and_thenE)
  from Cons.prems(2) have c: "c < 6" "c \<noteq> 2" and cs: "\<forall>c\<in>set cs. c < 6 \<and> c \<noteq> 2"
    by simp_all
  from vector_kept [OF c s Cons.prems(3,4)]
  have k: "j < length (VECTORS w1)" "VECTORS w1 ! j = VECTORS w ! j" "VECTORS w1 ! j < brk w1"
    "heap w1 (VECTORS w1 ! j) = heap w (VECTORS w ! j)"
    by auto
  from Cons.IH [OF r cs k(1,3)]
  have i: "j < length (VECTORS w')" "VECTORS w' ! j = VECTORS w1 ! j"
    "heap w' (VECTORS w' ! j) = heap w1 (VECTORS w1 ! j)"
    by blast+
  from i(1) show ?case
    using i(2,3) k(2,4) by metis
qed

termination dispatch_loop
proof (relation "measure (\<lambda>w. length (inbox w))")
  show "wf (measure (\<lambda>w. length (inbox w)))" by simp
next
  fix w :: worker and x c w1 w2
  assume a: "get_char Bcast MPI_CHAR w = Inr x" "(c, w1) = x"
    and b: "\<not> NTOKENS \<le> unat c" and c: "(FTABLE ! unat c) w1 = Inr w2"
  from a have "get_char Bcast MPI_CHAR w = Inr (c, w1)" by simp
  then have "length (inbox w1) < length (inbox w)"
    by (elim get_charE) simp
  moreover from b c have "length (inbox w2) \<le> length (inbox w1)"
    by (intro handler_inbox [of "unat c"]) simp_all
  ultimately show "(w2, w) \<in> measure (\<lambda>w. length (inbox w))" by simp
qed

declare dispatch_loop.simps [simp del]



section \<open>The dispatch loop\<close>

lemma dispatch_loop_step:
  "inbox w = Chars [c] # q \<Longrightarrow>
   dispatch_loop w =
     (if 6 \<le> unat c
      then Inr (w\<lparr>inbox := q, wire := wire w @ [Received Bcast MPI_CHAR 1 (Chars [c])]\<rparr>)
      else and_then
             ((FTABLE ! unat c)
                (w\<lparr>inbox := q, wire := wire w @ [Received Bcast MPI_CHAR 1 (Chars [c])]\<rparr>))
             dispatch_loop)"
  by (subst dispatch_loop.simps)
     (simp add: get_char_eval [where q = q] NTOKENS_6 and_then_def)


text \<open>
  C3.  Whatever the registries of a worker hold, a command code \<open>c \<ge> 6\<close> ends the dispatch
  loop in the round that receives it: no handler runs (the worker is unchanged but for the
  consumed broadcast), \<open>eventloop\<close> disconnects and finalizes, and \<open>main\<close> exits with status
  0.  A code \<open>c < 6\<close> invokes the handler \<open>FTABLE ! c\<close>, and the loop goes on with the next
  round from the worker the handler returns; a failure of the handler ends the worker.
\<close>

theorem unknown_code_ends_session:
  assumes "inbox w = Chars [c] # q"
  shows "dispatch_loop w =
     (if 6 \<le> unat c
      then Inr (w\<lparr>inbox := q, wire := wire w @ [Received Bcast MPI_CHAR 1 (Chars [c])]\<rparr>)
      else and_then
             ((FTABLE ! unat c)
                (w\<lparr>inbox := q, wire := wire w @ [Received Bcast MPI_CHAR 1 (Chars [c])]\<rparr>))
             dispatch_loop) \<and>
   (6 \<le> unat c \<longrightarrow>
      main [prog, ''eventloop''] w =
        Exit 0 [] (w\<lparr>inbox := q,
                     wire := wire w @ [Init, Received Bcast MPI_CHAR 1 (Chars [c]),
                                       Disconnect, Finalize]\<rparr>))"
proof (intro conjI impI)
  show "dispatch_loop w =
     (if 6 \<le> unat c
      then Inr (w\<lparr>inbox := q, wire := wire w @ [Received Bcast MPI_CHAR 1 (Chars [c])]\<rparr>)
      else and_then
             ((FTABLE ! unat c)
                (w\<lparr>inbox := q, wire := wire w @ [Received Bcast MPI_CHAR 1 (Chars [c])]\<rparr>))
             dispatch_loop)"
    using assms by (rule dispatch_loop_step)
next
  assume c: "6 \<le> unat c"
  have "inbox (w\<lparr>wire := wire w @ [Init]\<rparr>) = Chars [c] # q"
    using assms by simp
  from dispatch_loop_step [OF this] c
  have "dispatch_loop (w\<lparr>wire := wire w @ [Init]\<rparr>) =
          Inr (w\<lparr>inbox := q, wire := wire w @ [Init, Received Bcast MPI_CHAR 1 (Chars [c])]\<rparr>)"
    by simp
  then show "main [prog, ''eventloop''] w =
        Exit 0 [] (w\<lparr>inbox := q,
                     wire := wire w @ [Init, Received Bcast MPI_CHAR 1 (Chars [c]),
                                       Disconnect, Finalize]\<rparr>)"
    by (simp add: main_def eventloop_def)
qed


theorem unknown_code_ends_session_witness:
  "main [''libmatrix'', ''eventloop''] (start 3 [Chars [6], Handles [0]]) =
     Exit 0 []
       ((start 3 [Handles [0]])
          \<lparr>wire := [Init, Received Bcast MPI_CHAR 1 (Chars [6]), Disconnect, Finalize]\<rparr>) \<and>
   dispatch_loop (start 0 [Chars [4], Sizes [4], Sizes [2], Globals [0, 1], Chars [200]]) =
     Inr ((start 0 [])
            \<lparr>MAPS := [new_map_t 4 [0, 1] 0],
              wire := [Received Bcast MPI_CHAR 1 (Chars [4]),
                       Received Bcast MPI_SIZE 1 (Sizes [4]),
                       Received Scatter MPI_SIZE 1 (Sizes [2]),
                       Received Scatterv MPI_GLOBAL 2 (Globals [0, 1]),
                       Gather MPI_HANDLE [0],
                       Received Bcast MPI_CHAR 1 (Chars [200])]\<rparr>)"
  using unknown_code_ends_session [where w = "start 3 [Chars [6], Handles [0]]" and c = 6
        and q = "[Handles [0]]" and prog = "''libmatrix''"]
    unknown_code_ends_session [where c = 4 and prog = "''libmatrix''"
        and w = "start 0 [Chars [4], Sizes [4], Sizes [2], Globals [0, 1], Chars [200]]"
        and q = "[Sizes [4], Sizes [2], Globals [0, 1], Chars [200]]"]
    unknown_code_ends_session [where c = 200 and q = "[]" and prog = "''libmatrix''"
        and w = "(start 0 [Chars [200]])
            \<lparr>MAPS := [new_map_t 4 [0, 1] 0],
              wire := [Received Bcast MPI_CHAR 1 (Chars [4]),
                       Received Bcast MPI_SIZE 1 (Sizes [4]),
                       Received Scatter MPI_SIZE 1 (Sizes [2]),
                       Received Scatterv MPI_GLOBAL 2 (Globals [0, 1]),
                       Gather MPI_HANDLE [0]]\<rparr>"]
  by (simp add: start_def start_on_def FTABLE_def new_map_eval size_to_handle_def size_at_zero)


section \<open>The command table\<close>

text \<open>
  C1.  The dispatch loop indexes \<open>FTABLE\<close> with the command code, and the table is, from
  code 0 on: \<open>new_matrix\<close> (CreateMatrix), \<open>new_vector\<close> (CreateVector), \<open>add_evec\<close>
  (AccumulateVector), \<open>get_vector\<close> (ReadVector), \<open>new_map\<close> (CreateMap), \<open>new_graph\<close>
  (CreateGraph).  A handler returns exactly when the controller delivers the arguments of its
  table row, and then it has performed exactly the exchanges of that row, in order (the
  element count of a receive is what the count variable of the handler holds: \<open>size_at\<close>
  for a size that was received, \<open>sizes_at\<close> for the column counts):
  \<^item> code 0: broadcast of the graph handle; a matrix of the resolved graph is appended;
    gather of the matrix handle;
  \<^item> code 1: broadcast of the map handle; a vector of the resolved map is appended; gather
    of the vector handle;
  \<^item> code 2: broadcast of the target rank; in the worker of that rank, receive of the
    vector handle, of the item count, of the indices and of the values, which are summed
    into the vector;
  \<^item> code 3: broadcast of the vector handle; gather-variable of the local values;
  \<^item> code 4: broadcast of the size, scatter of the element count, scatter-variable of the
    element identifiers; a map is appended; gather of the map handle;
  \<^item> code 5: broadcast of the map handle, scatter-variable of one column count per local
    row, scatter-variable of the concatenated column indices; a sealed graph is appended;
    gather of the graph handle.
\<close>

theorem command_table:
  "FTABLE = [new_matrix, new_vector, add_evec, get_vector, new_map, new_graph] \<and>
   (inbox u = Chars [c] # p \<and> unat c < 6 \<longrightarrow>
      dispatch_loop u =
        and_then
          ((FTABLE ! unat c)
             (u\<lparr>inbox := p, wire := wire u @ [Received Bcast MPI_CHAR 1 (Chars [c])]\<rparr>))
          dispatch_loop) \<and>
   (new_matrix w = Inr w' \<longleftrightarrow>
     (\<exists>igraph q. inbox w = Handles [igraph] # q \<and> in_bounds (GRAPHS w) igraph \<and>
        w' = w\<lparr>MATRICES := MATRICES w @ [new_matrix_t (GRAPHS w ! nat (sint igraph))],
               inbox := q,
               wire := wire w @ [Received Bcast MPI_HANDLE 1 (Handles [igraph]),
                                 Gather MPI_HANDLE [size_to_handle (length (MATRICES w))]]\<rparr>)) \<and>
   (new_vector w = Inr w' \<longleftrightarrow>
     (\<exists>imap q. inbox w = Handles [imap] # q \<and> in_bounds (MAPS w) imap \<and>
        w' = w\<lparr>VECTORS := VECTORS w @ [brk w],
               heap := (heap w)(brk w := new_vector_t (MAPS w ! nat (sint imap))),
               brk := Suc (brk w),
               inbox := q,
               wire := wire w @ [Received Bcast MPI_HANDLE 1 (Handles [imap]),
                                 Gather MPI_HANDLE [size_to_handle (length (VECTORS w))]]\<rparr>)) \<and>
   (add_evec w = Inr w' \<longleftrightarrow>
     (\<exists>target q. inbox w = Sizes [target] # q \<and> size_at w 0 target \<noteq> my_rank w \<and>
        w' = w\<lparr>inbox := q, wire := wire w @ [Received Bcast MPI_SIZE 1 (Sizes [target])]\<rparr>) \<or>
     (\<exists>target ivec nitems idx data q vec.
        inbox w = Sizes [target] # Handles [ivec] # Sizes [nitems] # Globals idx #
                  Scalars data # q \<and>
        size_at w 0 target = my_rank w \<and>
        length idx = size_at w 2 nitems \<and> length data = size_at w 2 nitems \<and>
        in_bounds (VECTORS w) ivec \<and>
        sum_into idx data [0..<size_at w 2 nitems] (heap w (VECTORS w ! nat (sint ivec))) =
          Inr vec \<and>
        w' = w\<lparr>inbox := q,
               wire := wire w @ [Received Bcast MPI_SIZE 1 (Sizes [target]),
                                 Received Recv MPI_HANDLE 1 (Handles [ivec]),
                                 Received Recv MPI_SIZE 1 (Sizes [nitems]),
                                 Received Recv MPI_GLOBAL (size_at w 2 nitems) (Globals idx),
                                 Received Recv MPI_SCALAR (size_at w 2 nitems) (Scalars data)],
               heap := (heap w)(VECTORS w ! nat (sint ivec) := vec)\<rparr>)) \<and>
   (get_vector w = Inr w' \<longleftrightarrow>
     (\<exists>ivec q. inbox w = Handles [ivec] # q \<and> in_bounds (VECTORS w) ivec \<and>
        w' = w\<lparr>inbox := q,
               wire := wire w @ [Received Bcast MPI_HANDLE 1 (Handles [ivec]),
                  Gatherv MPI_SCALAR (getData (heap w (VECTORS w ! nat (sint ivec))))]\<rparr>)) \<and>
   (new_map w = Inr w' \<longleftrightarrow>
     (\<exists>sz ndofs elements q.
        inbox w = Sizes [sz] # Sizes [ndofs] # Globals elements # q \<and>
        length elements = size_at w 1 ndofs \<and>
        w' = w\<lparr>MAPS := MAPS w @ [new_map_t (size_at w 0 sz) elements 0],
               inbox := q,
               wire := wire w @ [Received Bcast MPI_SIZE 1 (Sizes [sz]),
                                 Received Scatter MPI_SIZE 1 (Sizes [ndofs]),
                                 Received Scatterv MPI_GLOBAL (size_at w 1 ndofs)
                                   (Globals elements),
                                 Gather MPI_HANDLE [size_to_handle (length (MAPS w))]]\<rparr>)) \<and>
   (new_graph w = Inr w' \<longleftrightarrow>
     (\<exists>imap counts items q graph.
        inbox w = Handles [imap] # Sizes counts # Globals items # q \<and>
        in_bounds (MAPS w) imap \<and>
        length counts = getNodeNumElements (MAPS w ! nat (sint imap)) \<and>
        0 \<le> sint (count_items (sizes_at w 1 counts)
                 [0..<getNodeNumElements (MAPS w ! nat (sint imap))] 0) \<and>
        length items =
          nat (sint (count_items (sizes_at w 1 counts)
                 [0..<getNodeNumElements (MAPS w ! nat (sint imap))] 0)) \<and>
        insert_rows (sizes_at w 1 counts) items
          [0..<getNodeNumElements (MAPS w ! nat (sint imap))] 0
          (new_graph_t (MAPS w ! nat (sint imap)) (sizes_at w 1 counts)) = Inr graph \<and>
        w' = w\<lparr>inbox := q,
               GRAPHS := GRAPHS w @ [fillComplete graph],
               wire := wire w @
                 [Received Bcast MPI_HANDLE 1 (Handles [imap]),
                  Received Scatterv MPI_SIZE (getNodeNumElements (MAPS w ! nat (sint imap)))
                    (Sizes counts),
                  Received Scatterv MPI_GLOBAL (length items) (Globals items),
                  Gather MPI_HANDLE [size_to_handle (length (GRAPHS w))]]\<rparr>))"
proof -
  have "inbox u = Chars [c] # p \<and> unat c < 6 \<longrightarrow>
      dispatch_loop u =
        and_then
          ((FTABLE ! unat c)
             (u\<lparr>inbox := p, wire := wire u @ [Received Bcast MPI_CHAR 1 (Chars [c])]\<rparr>))
          dispatch_loop"
    by (simp add: dispatch_loop_step)
  then show ?thesis
    by (intro conjI FTABLE_def new_matrix_iff new_vector_iff add_evec_iff get_vector_iff
        new_map_iff new_graph_iff)
qed

theorem command_table_witness:
  "dispatch_loop (start 0 [Chars [4], Sizes [4], Sizes [2], Globals [0, 1]]) =
     and_then (new_map ((start 0 [Sizes [4], Sizes [2], Globals [0, 1]])
                          \<lparr>wire := [Received Bcast MPI_CHAR 1 (Chars [4])]\<rparr>)) dispatch_loop \<and>
   new_map ((start 0 [Sizes [4], Sizes [2], Globals [0, 1]])
              \<lparr>wire := [Received Bcast MPI_CHAR 1 (Chars [4])]\<rparr>) =
     Inr ((start 0 [])
            \<lparr>MAPS := [new_map_t 4 [0, 1] 0],
              wire := [Received Bcast MPI_CHAR 1 (Chars [4]),
                       Received Bcast MPI_SIZE 1 (Sizes [4]),
                       Received Scatter MPI_SIZE 1 (Sizes [2]),
                       Received Scatterv MPI_GLOBAL 2 (Globals [0, 1]),
                       Gather MPI_HANDLE [0]]\<rparr>)"
proof -
  note t = command_table [where c = 4 and p = "[Sizes [4], Sizes [2], Globals [0, 1]]"
      and u = "start 0 [Chars [4], Sizes [4], Sizes [2], Globals [0, 1]]"
      and w = "(start 0 [Sizes [4], Sizes [2], Globals [0, 1]])
              \<lparr>wire := [Received Bcast MPI_CHAR 1 (Chars [4])]\<rparr>"
      and w' = "(start 0 [])
            \<lparr>MAPS := [new_map_t 4 [0, 1] 0],
              wire := [Received Bcast MPI_CHAR 1 (Chars [4]),
                       Received Bcast MPI_SIZE 1 (Sizes [4]),
                       Received Scatter MPI_SIZE 1 (Sizes [2]),
                       Received Scatterv MPI_GLOBAL 2 (Globals [0, 1]),
                       Gather MPI_HANDLE [0]]\<rparr>"]
  have a: "dispatch_loop (start 0 [Chars [4], Sizes [4], Sizes [2], Globals [0, 1]]) =
     and_then (new_map ((start 0 [Sizes [4], Sizes [2], Globals [0, 1]])
                          \<lparr>wire := [Received Bcast MPI_CHAR 1 (Chars [4])]\<rparr>)) dispatch_loop"
    using t [THEN conjunct2, THEN conjunct1] by (simp add: start_def start_on_def FTABLE_def)
  have b: "new_map ((start 0 [Sizes [4], Sizes [2], Globals [0, 1]])
              \<lparr>wire := [Received Bcast MPI_CHAR 1 (Chars [4])]\<rparr>) =
     Inr ((start 0 [])
            \<lparr>MAPS := [new_map_t 4 [0, 1] 0],
              wire := [Received Bcast MPI_CHAR 1 (Chars [4]),
                       Received Bcast MPI_SIZE 1 (Sizes [4]),
                       Received Scatter MPI_SIZE 1 (Sizes [2]),
                       Received Scatterv MPI_GLOBAL 2 (Globals [0, 1]),
                       Gather MPI_HANDLE [0]]\<rparr>)"
    apply (rule t [THEN conjunct2, THEN conjunct2, THEN conjunct2, THEN conjunct2,
          THEN conjunct2, THEN conjunct2, THEN conjunct1, THEN iffD2])
    apply (rule exI [of _ 4], rule exI [of _ 2], rule exI [of _ "[0, 1]"], rule exI [of _ "[]"])
    apply (simp add: start_def start_on_def size_to_handle_def size_at_zero)
    done
  from a b show ?thesis by simp
qed


section \<open>The registries\<close>

text \<open>
  C8.  A handler that returns leaves the four registry tables as they are (\<open>add_evec\<close>,
  code 2, and \<open>get_vector\<close>, code 3) or appends one entry to one table and leaves the other
  three as they are (\<open>new_matrix\<close>, \<open>new_vector\<close>, \<open>new_map\<close>, \<open>new_graph\<close>: codes 0, 1, 4,
  5).  In every case each table still starts with its former entries, in their order:
  nothing is removed, replaced or reordered.
\<close>

theorem registries_append_only:
  assumes "n < 6" and "(FTABLE ! n) w = Inr w'"
  shows
    "(n = 2 \<or> n = 3 \<longrightarrow>
        VECTORS w' = VECTORS w \<and> MATRICES w' = MATRICES w \<and>
        MAPS w' = MAPS w \<and> GRAPHS w' = GRAPHS w) \<and>
     (n = 0 \<longrightarrow>
        (\<exists>x. MATRICES w' = MATRICES w @ [x]) \<and> VECTORS w' = VECTORS w \<and>
        MAPS w' = MAPS w \<and> GRAPHS w' = GRAPHS w) \<and>
     (n = 1 \<longrightarrow>
        (\<exists>x. VECTORS w' = VECTORS w @ [x]) \<and> MATRICES w' = MATRICES w \<and>
        MAPS w' = MAPS w \<and> GRAPHS w' = GRAPHS w) \<and>
     (n = 4 \<longrightarrow>
        (\<exists>x. MAPS w' = MAPS w @ [x]) \<and> VECTORS w' = VECTORS w \<and>
        MATRICES w' = MATRICES w \<and> GRAPHS w' = GRAPHS w) \<and>
     (n = 5 \<longrightarrow>
        (\<exists>x. GRAPHS w' = GRAPHS w @ [x]) \<and> VECTORS w' = VECTORS w \<and>
        MATRICES w' = MATRICES w \<and> MAPS w' = MAPS w) \<and>
     take (length (VECTORS w)) (VECTORS w') = VECTORS w \<and>
     take (length (MATRICES w)) (MATRICES w') = MATRICES w \<and>
     take (length (MAPS w)) (MAPS w') = MAPS w \<and>
     take (length (GRAPHS w)) (GRAPHS w') = GRAPHS w"
proof -
  from assms(1) have "n = 0 \<or> n = 1 \<or> n = 2 \<or> n = 3 \<or> n = 4 \<or> n = 5"
    by (rule below_6)
  then show ?thesis
  proof (elim disjE)
    assume n: "n = 0"
    with assms(2) have "new_matrix w = Inr w'" by (simp add: FTABLE_def)
    then show ?thesis using n by (elim new_matrixE) simp
  next
    assume n: "n = 1"
    with assms(2) have "new_vector w = Inr w'" by (simp add: FTABLE_def)
    then show ?thesis using n by (elim new_vectorE) simp
  next
    assume n: "n = 2"
    with assms(2) have "add_evec w = Inr w'" by (simp add: FTABLE_def)
    then show ?thesis using n by (cases rule: add_evec_cases) simp_all
  next
    assume n: "n = 3"
    with assms(2) have "get_vector w = Inr w'" by (simp add: FTABLE_def)
    then show ?thesis using n by (elim get_vectorE) simp
  next
    assume n: "n = 4"
    with assms(2) have "new_map w = Inr w'" by (simp add: FTABLE_def)
    then show ?thesis using n by (elim new_mapE) simp
  next
    assume n: "n = 5"
    with assms(2) have "new_graph w = Inr w'" by (simp add: FTABLE_def)
    then show ?thesis using n by (cases rule: new_graph_cases) simp
  qed
qed

theorem registries_append_only_witness:
  "(FTABLE ! 4) (start 0 [Sizes [4], Sizes [2], Globals [0, 1]]) =
     Inr ((start 0 [])
            \<lparr>MAPS := [new_map_t 4 [0, 1] 0],
              wire := [Received Bcast MPI_SIZE 1 (Sizes [4]),
                       Received Scatter MPI_SIZE 1 (Sizes [2]),
                       Received Scatterv MPI_GLOBAL 2 (Globals [0, 1]),
                       Gather MPI_HANDLE [0]]\<rparr>) \<and>
   (\<exists>x. MAPS ((start 0 [])
            \<lparr>MAPS := [new_map_t 4 [0, 1] 0],
              wire := [Received Bcast MPI_SIZE 1 (Sizes [4]),
                       Received Scatter MPI_SIZE 1 (Sizes [2]),
                       Received Scatterv MPI_GLOBAL 2 (Globals [0, 1]),
                       Gather MPI_HANDLE [0]]\<rparr>) =
        MAPS (start 0 [Sizes [4], Sizes [2], Globals [0, 1]]) @ [x])"
proof -
  have run: "(FTABLE ! 4) (start 0 [Sizes [4], Sizes [2], Globals [0, 1]]) =
     Inr ((start 0 [])
            \<lparr>MAPS := [new_map_t 4 [0, 1] 0],
              wire := [Received Bcast MPI_SIZE 1 (Sizes [4]),
                       Received Scatter MPI_SIZE 1 (Sizes [2]),
                       Received Scatterv MPI_GLOBAL 2 (Globals [0, 1]),
                       Gather MPI_HANDLE [0]]\<rparr>)"
    by (simp add: FTABLE_def start_def start_on_def new_map_eval size_to_handle_def size_at_zero)
  have four: "(4::nat) < 6" by simp
  from registries_append_only [OF four run] run show ?thesis
    by simp
qed


section \<open>Graph creation\<close>

text \<open>
  C4.  The row that \<open>new_graph\<close> names in each insertion is not the locally owned row: the
  first argument of \<open>insertGlobalIndices\<close> is the global identifier of a row, and the loop
  passes its counter \<open>irow\<close>, the local row number.  A worker that owns the rows 2 and 3,
  and receives the column counts 2 and 0 and the columns 2 and 3, inserts the two columns
  into the row 0 and none into the row 1; it owns neither.  This is so on the LP64 machine
  of \<open>start\<close> and on every ILP32 machine.  (The rest of the property holds of every
  returning \<open>new_graph\<close>, by the lemma \<open>new_graph_effect\<close>: with \<open>k\<close> the number of
  elements the map assigns to this worker, \<open>k\<close> column counts are received, the column
  buffer has the length of the sum of what the buffer \<open>numcols\<close> then holds, the call for
  the row number \<open>irow\<close> passes the slice of that row's count at the running offset, and
  the graph is sealed before it is stored.)
\<close>

theorem new_graph_rows_by_local_number:
  "new_graph ((start 1 [Handles [0], Sizes [2, 0], Globals [2, 3]])
                \<lparr>MAPS := [new_map_t 4 [2, 3] 0]\<rparr>) =
     Inr ((start 1 [])
            \<lparr>MAPS := [new_map_t 4 [2, 3] 0],
              GRAPHS := [\<lparr>graph_map = new_map_t 4 [2, 3] 0, graph_numcols = [2, 0],
                          graph_inserted = [(0, [2, 3]), (1, [])], graph_filled = True\<rparr>],
              wire := [Received Bcast MPI_HANDLE 1 (Handles [0]),
                       Received Scatterv MPI_SIZE 2 (Sizes [2, 0]),
                       Received Scatterv MPI_GLOBAL 2 (Globals [2, 3]),
                       Gather MPI_HANDLE [0]]\<rparr>) \<and>
   new_graph ((start_on ILP32 bo mem 1 [Handles [0], Sizes [2, 0], Globals [2, 3]])
                \<lparr>MAPS := [new_map_t 4 [2, 3] 0]\<rparr>) =
     Inr ((start_on ILP32 bo mem 1 [])
            \<lparr>MAPS := [new_map_t 4 [2, 3] 0],
              GRAPHS := [\<lparr>graph_map = new_map_t 4 [2, 3] 0, graph_numcols = [2, 0],
                          graph_inserted = [(0, [2, 3]), (1, [])], graph_filled = True\<rparr>],
              wire := [Received Bcast MPI_HANDLE 1 (Handles [0]),
                       Received Scatterv MPI_SIZE 2 (Sizes [2, 0]),
                       Received Scatterv MPI_GLOBAL 2 (Globals [2, 3]),
                       Gather MPI_HANDLE [0]]\<rparr>) \<and>
   elementList (new_map_t 4 [2, 3] 0) = [2, 3]"
  by (simp add: new_graph_def start_def start_on_def get_eval at_handle_def in_bounds_def
      new_map_t_def getNodeNumElements_def upt_rec [of 0] upt_rec [of 1] upt_rec [of 2]
      view_def insertGlobalIndices_def new_graph_t_def fillComplete_def gather_def
      size_to_handle_def Let_def sizes_at_def store_ints_def join_halves_def MPI_SIZE_def)


section \<open>Accumulation\<close>

text \<open>
  C5.  The target rank that an \<open>add_evec\<close> round broadcasts is not checked against the
  group.  As stated for every round the property fails: in a group of two workers, with the
  ranks 0 and 1, a round that broadcasts the target 2 returns in both workers after the
  broadcast, and no worker performs a point-to-point receive.  This is so on the LP64
  machine of \<open>start\<close>, where the rank variables hold the target 2 after the broadcast,
  and on an ILP32 machine, where a \<open>size_t\<close> is as wide as the \<open>int\<close> that is sent and
  what the memory held before does not matter.
\<close>

theorem no_target_counterexample:
  "add_evec (start 0 [Sizes [2]]) =
     Inr ((start 0 [])\<lparr>wire := [Received Bcast MPI_SIZE 1 (Sizes [2])]\<rparr>) \<and>
   add_evec (start 1 [Sizes [2]]) =
     Inr ((start 1 [])\<lparr>wire := [Received Bcast MPI_SIZE 1 (Sizes [2])]\<rparr>) \<and>
   \<not> (\<exists>r::nat. r < 2 \<and>
         list_ex is_recv
           (new_events (start r [Sizes [2]])
              ((start r [])\<lparr>wire := [Received Bcast MPI_SIZE 1 (Sizes [2])]\<rparr>))) \<and>
   size_at (start 0 [Sizes [2]]) 0 2 = 2 \<and> size_at (start 1 [Sizes [2]]) 0 2 = 2 \<and>
   add_evec (start_on ILP32 LittleEndian (\<lambda>t k. 5) 0 [Sizes [2]]) =
     Inr ((start_on ILP32 LittleEndian (\<lambda>t k. 5) 0 [])
            \<lparr>wire := [Received Bcast MPI_SIZE 1 (Sizes [2])]\<rparr>) \<and>
   add_evec (start_on ILP32 LittleEndian (\<lambda>t k. 5) 1 [Sizes [2]]) =
     Inr ((start_on ILP32 LittleEndian (\<lambda>t k. 5) 1 [])
            \<lparr>wire := [Received Bcast MPI_SIZE 1 (Sizes [2])]\<rparr>)"
  by (simp add: start_def start_on_def add_evec_other new_events_def size_at_zero
      size_at_ILP32)


text \<open>
  C5, amended.  In an \<open>add_evec\<close> round that broadcasts the target \<open>t\<close>, a worker that
  does not find its own rank in its variable \<open>rank\<close> after the broadcast returns: its
  registries and the contents of its vectors are unchanged.  A worker that finds its own
  rank there goes on to the four point-to-point receives (vector handle, item count,
  indices, values) and sums the values into the vector.  So in a group of \<open>n\<close> workers
  with the ranks \<open>0, ..., n - 1\<close>, in a round whose broadcast leaves the target in the
  variable \<open>rank\<close> of every worker, a worker performs point-to-point receives exactly when
  its rank is \<open>t\<close>: exactly one worker when \<open>t\<close> is a rank of the group (\<open>t < n\<close>), and
  none otherwise.  The broadcast leaves the target in the variable on every build whose
  \<open>size_t\<close> is as wide as the \<open>int\<close> that \<open>MPI_SIZE\<close> moves.
\<close>

theorem accumulate_target_only:
  "(inbox w = Sizes [t] # q \<and> size_at w 0 t \<noteq> my_rank w \<longrightarrow>
      add_evec w =
        Inr (w\<lparr>inbox := q, wire := wire w @ [Received Bcast MPI_SIZE 1 (Sizes [t])]\<rparr>)) \<and>
   (inbox w = Sizes [t] # q \<and> size_at w 0 t = my_rank w \<and> add_evec w = Inr w' \<longrightarrow>
      (\<exists>ivec nitems idx data q' vec.
         q = Handles [ivec] # Sizes [nitems] # Globals idx # Scalars data # q' \<and>
         length idx = size_at w 2 nitems \<and> length data = size_at w 2 nitems \<and>
         in_bounds (VECTORS w) ivec \<and>
         new_events w w' =
           [Received Bcast MPI_SIZE 1 (Sizes [t]),
            Received Recv MPI_HANDLE 1 (Handles [ivec]),
            Received Recv MPI_SIZE 1 (Sizes [nitems]),
            Received Recv MPI_GLOBAL (size_at w 2 nitems) (Globals idx),
            Received Recv MPI_SCALAR (size_at w 2 nitems) (Scalars data)] \<and>
         sum_into idx data [0..<size_at w 2 nitems] (heap w (VECTORS w ! nat (sint ivec))) =
           Inr vec \<and>
         heap w' = (heap w)(VECTORS w ! nat (sint ivec) := vec))) \<and>
   ((\<forall>r<n. my_rank (ws r) = r \<and> hd (inbox (ws r)) = Sizes [t] \<and>
            size_intact (ws r) 0 t \<and> add_evec (ws r) = Inr (ws' r)) \<longrightarrow>
      (\<forall>r<n. list_ex is_recv (new_events (ws r) (ws' r)) \<longleftrightarrow> r = unat t) \<and>
      (unat t < n \<longrightarrow> (\<exists>!r. r < n \<and> list_ex is_recv (new_events (ws r) (ws' r)))) \<and>
      (\<not> unat t < n \<longrightarrow> \<not> (\<exists>r<n. list_ex is_recv (new_events (ws r) (ws' r)))) \<and>
      (\<forall>r<n. r \<noteq> unat t \<longrightarrow>
         ws' r = (ws r)\<lparr>inbox := tl (inbox (ws r)),
                        wire := wire (ws r) @ [Received Bcast MPI_SIZE 1 (Sizes [t])]\<rparr>)) \<and>
   (sizeof (build w) C_size_t = sizeof (build w) (mpi_ctype MPI_SIZE) \<longrightarrow>
      size_intact w j x)"
proof (intro conjI impI; (elim conjE)?)
  assume "inbox w = Sizes [t] # q" "size_at w 0 t \<noteq> my_rank w"
  then show "add_evec w =
        Inr (w\<lparr>inbox := q, wire := wire w @ [Received Bcast MPI_SIZE 1 (Sizes [t])]\<rparr>)"
    by (simp add: add_evec_other)
next
  assume a: "inbox w = Sizes [t] # q" "size_at w 0 t = my_rank w" "add_evec w = Inr w'"
  from a(3) show "\<exists>ivec nitems idx data q' vec.
         q = Handles [ivec] # Sizes [nitems] # Globals idx # Scalars data # q' \<and>
         length idx = size_at w 2 nitems \<and> length data = size_at w 2 nitems \<and>
         in_bounds (VECTORS w) ivec \<and>
         new_events w w' =
           [Received Bcast MPI_SIZE 1 (Sizes [t]),
            Received Recv MPI_HANDLE 1 (Handles [ivec]),
            Received Recv MPI_SIZE 1 (Sizes [nitems]),
            Received Recv MPI_GLOBAL (size_at w 2 nitems) (Globals idx),
            Received Recv MPI_SCALAR (size_at w 2 nitems) (Scalars data)] \<and>
         sum_into idx data [0..<size_at w 2 nitems] (heap w (VECTORS w ! nat (sint ivec))) =
           Inr vec \<and>
         heap w' = (heap w)(VECTORS w ! nat (sint ivec) := vec)"
  proof (cases rule: add_evec_cases)
    case (other target q)
    with a show ?thesis by simp
  next
    case (target target ivec nitems idx data q' vec)
    with a show ?thesis by (auto simp: new_events_def)
  qed
next
  assume all: "\<forall>r<n. my_rank (ws r) = r \<and> hd (inbox (ws r)) = Sizes [t] \<and>
            size_intact (ws r) 0 t \<and> add_evec (ws r) = Inr (ws' r)"
  have other: "ws' r = (ws r)\<lparr>inbox := tl (inbox (ws r)),
                        wire := wire (ws r) @ [Received Bcast MPI_SIZE 1 (Sizes [t])]\<rparr>"
    if "r < n" "r \<noteq> unat t" for r
  proof -
    from all that have r: "my_rank (ws r) = r" "hd (inbox (ws r)) = Sizes [t]"
      "size_at (ws r) 0 t = unat t" "add_evec (ws r) = Inr (ws' r)"
      by (simp_all add: size_intact_def)
    from r(4) show ?thesis
    proof (cases rule: add_evec_cases)
      case (other target q)
      with r show ?thesis by simp
    next
      case (target target ivec nitems idx data q' vec)
      with r that show ?thesis by simp
    qed
  qed
  have quiet: "\<not> list_ex is_recv (new_events (ws r) (ws' r))" if "r < n" "r \<noteq> unat t" for r
    by (subst other [OF that]) (simp add: new_events_def)
  have loud: "list_ex is_recv (new_events (ws (unat t)) (ws' (unat t)))" if "unat t < n"
  proof -
    from all that have r: "my_rank (ws (unat t)) = unat t"
      "hd (inbox (ws (unat t))) = Sizes [t]"
      "size_at (ws (unat t)) 0 t = unat t"
      "add_evec (ws (unat t)) = Inr (ws' (unat t))"
      by (simp_all add: size_intact_def)
    from r(4) show ?thesis
    proof (cases rule: add_evec_cases)
      case (other target q)
      with r show ?thesis by simp
    next
      case (target target ivec nitems idx data q' vec)
      then show ?thesis by (simp add: new_events_def)
    qed
  qed
  show "\<forall>r<n. list_ex is_recv (new_events (ws r) (ws' r)) \<longleftrightarrow> r = unat t"
    using loud quiet by blast
  show "\<exists>!r. r < n \<and> list_ex is_recv (new_events (ws r) (ws' r))" if "unat t < n"
    using that loud quiet by (intro ex1I [of _ "unat t"]) auto
  show "\<not> (\<exists>r<n. list_ex is_recv (new_events (ws r) (ws' r)))" if "\<not> unat t < n"
    using that quiet by blast
  show "\<forall>r<n. r \<noteq> unat t \<longrightarrow>
         ws' r = (ws r)\<lparr>inbox := tl (inbox (ws r)),
                        wire := wire (ws r) @ [Received Bcast MPI_SIZE 1 (Sizes [t])]\<rparr>"
    using other by blast
next
  assume "sizeof (build w) C_size_t = sizeof (build w) (mpi_ctype MPI_SIZE)"
  then show "size_intact w j x"
    by (simp add: size_intact_def size_at_def store_int_def)
qed

theorem accumulate_target_only_witness:
  "add_evec (start 0 [Sizes [1]]) = Inr ((start 0 [])\<lparr>wire := [Received Bcast MPI_SIZE 1 (Sizes [1])]\<rparr>) \<and>
   add_evec ((start 1 [Sizes [1], Handles [0], Sizes [1], Globals [2], Scalars [7]])
        \<lparr>VECTORS := [0], MAPS := [new_map_t 4 [2, 3] 0],
          heap := (\<lambda>_. new_vector_t (new_map_t 4 [2, 3] 0)), brk := 1\<rparr>) =
     Inr ((start 1 [])
        \<lparr>VECTORS := [0], MAPS := [new_map_t 4 [2, 3] 0],
          heap := (\<lambda>_. new_vector_t (new_map_t 4 [2, 3] 0))
                    (0 := \<lparr>vector_map = new_map_t 4 [2, 3] 0, vector_values = [7, 0]\<rparr>),
          brk := 1,
          wire := [Received Bcast MPI_SIZE 1 (Sizes [1]),
                   Received Recv MPI_HANDLE 1 (Handles [0]),
                   Received Recv MPI_SIZE 1 (Sizes [1]),
                   Received Recv MPI_GLOBAL 1 (Globals [2]),
                   Received Recv MPI_SCALAR 1 (Scalars [7])]\<rparr>) \<and>
   (\<exists>!r::nat. r < 2 \<and>
      list_ex is_recv
        (new_events
           (if r = 0 then start 0 [Sizes [1]] else (start 1 [Sizes [1], Handles [0], Sizes [1], Globals [2], Scalars [7]])
        \<lparr>VECTORS := [0], MAPS := [new_map_t 4 [2, 3] 0],
          heap := (\<lambda>_. new_vector_t (new_map_t 4 [2, 3] 0)), brk := 1\<rparr>)
           (if r = 0 then (start 0 [])\<lparr>wire := [Received Bcast MPI_SIZE 1 (Sizes [1])]\<rparr> else (start 1 [])
        \<lparr>VECTORS := [0], MAPS := [new_map_t 4 [2, 3] 0],
          heap := (\<lambda>_. new_vector_t (new_map_t 4 [2, 3] 0))
                    (0 := \<lparr>vector_map = new_map_t 4 [2, 3] 0, vector_values = [7, 0]\<rparr>),
          brk := 1,
          wire := [Received Bcast MPI_SIZE 1 (Sizes [1]),
                   Received Recv MPI_HANDLE 1 (Handles [0]),
                   Received Recv MPI_SIZE 1 (Sizes [1]),
                   Received Recv MPI_GLOBAL 1 (Globals [2]),
                   Received Recv MPI_SCALAR 1 (Scalars [7])]\<rparr>))) \<and>
   size_intact (start_on ILP32 BigEndian (\<lambda>t k. 5) 0 []) 0 1"
proof -
  let ?ws = "\<lambda>r::nat. if r = 0 then start 0 [Sizes [1]] else (start 1 [Sizes [1], Handles [0], Sizes [1], Globals [2], Scalars [7]])
        \<lparr>VECTORS := [0], MAPS := [new_map_t 4 [2, 3] 0],
          heap := (\<lambda>_. new_vector_t (new_map_t 4 [2, 3] 0)), brk := 1\<rparr>"
  let ?ws' = "\<lambda>r::nat. if r = 0 then (start 0 [])\<lparr>wire := [Received Bcast MPI_SIZE 1 (Sizes [1])]\<rparr> else (start 1 [])
        \<lparr>VECTORS := [0], MAPS := [new_map_t 4 [2, 3] 0],
          heap := (\<lambda>_. new_vector_t (new_map_t 4 [2, 3] 0))
                    (0 := \<lparr>vector_map = new_map_t 4 [2, 3] 0, vector_values = [7, 0]\<rparr>),
          brk := 1,
          wire := [Received Bcast MPI_SIZE 1 (Sizes [1]),
                   Received Recv MPI_HANDLE 1 (Handles [0]),
                   Received Recv MPI_SIZE 1 (Sizes [1]),
                   Received Recv MPI_GLOBAL 1 (Globals [2]),
                   Received Recv MPI_SCALAR 1 (Scalars [7])]\<rparr>"
  note t = accumulate_target_only [where t = 1 and n = 2 and ws = ?ws and ws' = ?ws'
      and j = 0 and x = 1]
  have i0: "size_at (start 0 [Sizes [1]]) 0 1 \<noteq> my_rank (start 0 [Sizes [1]])"
    by (simp add: start_def start_on_def size_at_zero)
  have a: "add_evec (start 0 [Sizes [1]]) = Inr ((start 0 [])\<lparr>wire := [Received Bcast MPI_SIZE 1 (Sizes [1])]\<rparr>)"
    using t [where w = "start 0 [Sizes [1]]" and q = "[]", THEN conjunct1] i0
    by (simp add: start_def start_on_def)
  have b: "add_evec ((start 1 [Sizes [1], Handles [0], Sizes [1], Globals [2], Scalars [7]])
        \<lparr>VECTORS := [0], MAPS := [new_map_t 4 [2, 3] 0],
          heap := (\<lambda>_. new_vector_t (new_map_t 4 [2, 3] 0)), brk := 1\<rparr>) =
     Inr ((start 1 [])
        \<lparr>VECTORS := [0], MAPS := [new_map_t 4 [2, 3] 0],
          heap := (\<lambda>_. new_vector_t (new_map_t 4 [2, 3] 0))
                    (0 := \<lparr>vector_map = new_map_t 4 [2, 3] 0, vector_values = [7, 0]\<rparr>),
          brk := 1,
          wire := [Received Bcast MPI_SIZE 1 (Sizes [1]),
                   Received Recv MPI_HANDLE 1 (Handles [0]),
                   Received Recv MPI_SIZE 1 (Sizes [1]),
                   Received Recv MPI_GLOBAL 1 (Globals [2]),
                   Received Recv MPI_SCALAR 1 (Scalars [7])]\<rparr>)"
    by (simp add: start_def start_on_def add_evec_target [where q = "[]"] at_handle_def
        in_bounds_def sumIntoGlobalValue_def getLocalElement_def new_vector_t_def new_map_t_def
        getNodeNumElements_def fun_upd_def size_at_zero)
  have hyp: "\<forall>r<2. my_rank (?ws r) = r \<and> hd (inbox (?ws r)) = Sizes [1] \<and>
            size_intact (?ws r) 0 1 \<and> add_evec (?ws r) = Inr (?ws' r)"
    using a b by (simp add: less_2_cases_iff)
      (simp add: start_def start_on_def size_intact_def size_at_zero)
  have one: "unat (1 :: mpi_int) < 2" by simp
  have c: "\<exists>!r. r < 2 \<and> list_ex is_recv (new_events (?ws r) (?ws' r))"
    using t [where w = "start 0 [Sizes [1]]" and q = "[]", THEN conjunct2, THEN conjunct2, THEN conjunct1,
        THEN mp, OF hyp, THEN conjunct2, THEN conjunct1, THEN mp, OF one] .
  have d: "size_intact (start_on ILP32 BigEndian (\<lambda>t k. 5) 0 []) 0 1"
    using t [where w = "start_on ILP32 BigEndian (\<lambda>t k. 5) 0 []" and q = "[]",
        THEN conjunct2, THEN conjunct2, THEN conjunct2]
    by (simp add: start_on_def MPI_SIZE_def)
  from a b c d show ?thesis by (intro conjI)
qed


section \<open>Vector contents\<close>

text \<open>
  C6.  A worker gathers its local values in the order of its local indices: the value of
  the global index \<open>i\<close> stands at the local index of \<open>i\<close>, its position in the worker's
  element list, and not at the position \<open>i\<close>.  As stated with the position \<open>i\<close> the
  property fails: the worker of rank 1 that owns the elements 2 and 3 gathers \<open>[7, 0]\<close>
  after the value 7 is accumulated at the global index 2; the contribution has no
  position 2, and the 7 stands at position 0.  This is so on the LP64 machine of \<open>start\<close>
  and on an ILP32 machine, whatever its memory held before.
\<close>

theorem position_is_local_counterexample:
  "and_then (and_then
      (new_vector ((start 1 [Handles [0], Sizes [1], Handles [0], Sizes [1], Globals [2],
                             Scalars [7], Handles [0]])
                     \<lparr>MAPS := [new_map_t 4 [2, 3] 0]\<rparr>)) add_evec) get_vector =
     Inr ((start 1 [])
            \<lparr>VECTORS := [0], MAPS := [new_map_t 4 [2, 3] 0],
              heap := (heap (start 1 []))
                 (0 := \<lparr>vector_map = new_map_t 4 [2, 3] 0, vector_values = [7, 0]\<rparr>),
              brk := 1,
              wire := [Received Bcast MPI_HANDLE 1 (Handles [0]),
                       Gather MPI_HANDLE [0],
                       Received Bcast MPI_SIZE 1 (Sizes [1]),
                       Received Recv MPI_HANDLE 1 (Handles [0]),
                       Received Recv MPI_SIZE 1 (Sizes [1]),
                       Received Recv MPI_GLOBAL 1 (Globals [2]),
                       Received Recv MPI_SCALAR 1 (Scalars [7]),
                       Received Bcast MPI_HANDLE 1 (Handles [0]),
                       Gatherv MPI_SCALAR [7, 0]]\<rparr>) \<and>
   and_then (and_then
      (new_vector ((start_on ILP32 LittleEndian (\<lambda>t k. 5) 1
                      [Handles [0], Sizes [1], Handles [0], Sizes [1], Globals [2],
                       Scalars [7], Handles [0]])
                     \<lparr>MAPS := [new_map_t 4 [2, 3] 0]\<rparr>)) add_evec) get_vector =
     Inr ((start_on ILP32 LittleEndian (\<lambda>t k. 5) 1 [])
            \<lparr>VECTORS := [0], MAPS := [new_map_t 4 [2, 3] 0],
              heap := (heap (start_on ILP32 LittleEndian (\<lambda>t k. 5) 1 []))
                 (0 := \<lparr>vector_map = new_map_t 4 [2, 3] 0, vector_values = [7, 0]\<rparr>),
              brk := 1,
              wire := [Received Bcast MPI_HANDLE 1 (Handles [0]),
                       Gather MPI_HANDLE [0],
                       Received Bcast MPI_SIZE 1 (Sizes [1]),
                       Received Recv MPI_HANDLE 1 (Handles [0]),
                       Received Recv MPI_SIZE 1 (Sizes [1]),
                       Received Recv MPI_GLOBAL 1 (Globals [2]),
                       Received Recv MPI_SCALAR 1 (Scalars [7]),
                       Received Bcast MPI_HANDLE 1 (Handles [0]),
                       Gatherv MPI_SCALAR [7, 0]]\<rparr>) \<and>
   \<not> (2::nat) < length [7, 0 :: scalar_t] \<and>
   [7, 0 :: scalar_t] ! 0 = 7 \<and>
   getLocalElement (new_map_t 4 [2, 3] 0) 2 = Some 0"
  by (simp add: start_def start_on_def new_vector_eval add_evec_target [where q = "[Handles [0]]"]
      get_vector_eval in_bounds_def size_to_handle_def at_handle_def sumIntoGlobalValue_def
      getLocalElement_def new_vector_t_def new_map_t_def getNodeNumElements_def getData_def
      size_at_zero size_at_ILP32)


text \<open>
  C6, amended.  Let a worker create a vector from a map (in a table of fewer than \<open>2^31\<close>
  vectors, so that the gathered handle \<open>h\<close> names it), and let the next two rounds be an
  \<open>add_evec\<close> on \<open>h\<close> with the one value \<open>v\<close> at the global index \<open>i\<close>, and a
  \<open>get_vector\<close> on \<open>h\<close>.
  \<^item> In the worker that the round targets and that owns \<open>i\<close>, at the local index \<open>k\<close>
    (\<open>elementList m ! k = i\<close>), when its variables \<open>rank\<close> and \<open>nitems\<close> hold the target
    and the item count 1 that were sent, the gathered contribution holds \<open>v\<close> at the
    position \<open>k\<close>, and 0 at every other position.
  \<^item> A worker that does not find its own rank in its variable \<open>rank\<close> (every worker of
    another rank, when the variable holds the target) gathers the contribution it would have
    gathered without the accumulation: all zeros.
  \<^item> Accumulation adds: on any vector, the position \<open>k\<close> holds its former value plus \<open>v\<close>
    afterwards, and the other positions are as before.
\<close>

theorem accumulate_read_round_trip:
  "(inbox w = Handles [imap] # Sizes [t] # Handles [h] # Sizes [1] # Globals [i] #
              Scalars [v] # Handles [h] # q \<and>
    unat t = my_rank w \<and> size_intact w 2 t \<and> size_intact w 4 1 \<and>
    in_bounds (MAPS w) imap \<and> length (VECTORS w) < 2 ^ 31 \<and>
    h = size_to_handle (length (VECTORS w)) \<and>
    getLocalElement (MAPS w ! nat (sint imap)) i = Some k \<longrightarrow>
      and_then (and_then (new_vector w) add_evec) get_vector =
        Inr (w\<lparr>VECTORS := VECTORS w @ [brk w],
               heap := (heap w)
                 (brk w := \<lparr>vector_map = MAPS w ! nat (sint imap),
                            vector_values =
                              (replicate (getNodeNumElements (MAPS w ! nat (sint imap))) 0)
                                [k := v]\<rparr>),
               brk := Suc (brk w),
               inbox := q,
               wire := wire w @
                 [Received Bcast MPI_HANDLE 1 (Handles [imap]),
                  Gather MPI_HANDLE [h],
                  Received Bcast MPI_SIZE 1 (Sizes [t]),
                  Received Recv MPI_HANDLE 1 (Handles [h]),
                  Received Recv MPI_SIZE 1 (Sizes [1]),
                  Received Recv MPI_GLOBAL 1 (Globals [i]),
                  Received Recv MPI_SCALAR 1 (Scalars [v]),
                  Received Bcast MPI_HANDLE 1 (Handles [h]),
                  Gatherv MPI_SCALAR
                    ((replicate (getNodeNumElements (MAPS w ! nat (sint imap))) 0)
                       [k := v])]\<rparr>) \<and>
      k < getNodeNumElements (MAPS w ! nat (sint imap)) \<and>
      elementList (MAPS w ! nat (sint imap)) ! k = i) \<and>
   (inbox w = Handles [imap] # Sizes [t] # Handles [h] # q \<and> size_at w 2 t \<noteq> my_rank w \<and>
    in_bounds (MAPS w) imap \<and> length (VECTORS w) < 2 ^ 31 \<and>
    h = size_to_handle (length (VECTORS w)) \<longrightarrow>
      and_then (and_then (new_vector w) add_evec) get_vector =
        Inr (w\<lparr>VECTORS := VECTORS w @ [brk w],
               heap := (heap w)(brk w := new_vector_t (MAPS w ! nat (sint imap))),
               brk := Suc (brk w),
               inbox := q,
               wire := wire w @
                 [Received Bcast MPI_HANDLE 1 (Handles [imap]),
                  Gather MPI_HANDLE [h],
                  Received Bcast MPI_SIZE 1 (Sizes [t]),
                  Received Bcast MPI_HANDLE 1 (Handles [h]),
                  Gatherv MPI_SCALAR
                    (replicate (getNodeNumElements (MAPS w ! nat (sint imap))) 0)]\<rparr>)) \<and>
   (inbox w = Sizes [t] # Handles [h] # Sizes [1] # Globals [i] # Scalars [v] #
              Handles [h] # q \<and>
    unat t = my_rank w \<and> size_intact w 0 t \<and> size_intact w 2 1 \<and>
    in_bounds (VECTORS w) h \<and> a = VECTORS w ! nat (sint h) \<and>
    getLocalElement (vector_map (heap w a)) i = Some k \<longrightarrow>
      and_then (add_evec w) get_vector =
        Inr (w\<lparr>inbox := q,
               wire := wire w @
                 [Received Bcast MPI_SIZE 1 (Sizes [t]),
                  Received Recv MPI_HANDLE 1 (Handles [h]),
                  Received Recv MPI_SIZE 1 (Sizes [1]),
                  Received Recv MPI_GLOBAL 1 (Globals [i]),
                  Received Recv MPI_SCALAR 1 (Scalars [v]),
                  Received Bcast MPI_HANDLE 1 (Handles [h]),
                  Gatherv MPI_SCALAR ((getData (heap w a))[k := getData (heap w a) ! k + v])],
               heap := (heap w)
                 (a := (heap w a)\<lparr>vector_values :=
                          (getData (heap w a))[k := getData (heap w a) ! k + v]\<rparr>)\<rparr>))"
proof (intro conjI impI; (elim conjE)?)
  assume a: "inbox w = Handles [imap] # Sizes [t] # Handles [h] # Sizes [1] #
      Globals [i] # Scalars [v] # Handles [h] # q"
    "unat t = my_rank w" "size_intact w 2 t" "size_intact w 4 1"
    "in_bounds (MAPS w) imap" "length (VECTORS w) < 2 ^ 31"
    "h = size_to_handle (length (VECTORS w))"
    "getLocalElement (MAPS w ! nat (sint imap)) i = Some k"
  let ?m = "MAPS w ! nat (sint imap)"
  let ?w1 = "w\<lparr>VECTORS := VECTORS w @ [brk w],
            heap := (heap w)(brk w := new_vector_t ?m),
            brk := Suc (brk w),
            inbox := Sizes [t] # Handles [h] # Sizes [1] # Globals [i] # Scalars [v] #
                     Handles [h] # q,
            wire := wire w @ [Received Bcast MPI_HANDLE 1 (Handles [imap]),
                              Gather MPI_HANDLE [size_to_handle (length (VECTORS w))]]\<rparr>"
  from a(8) have k: "k < getNodeNumElements ?m" "elementList ?m ! k = i"
    using first_index_Some [of "elementList ?m" i k]
    by (simp_all add: getLocalElement_def getNodeNumElements_def)
  then show "k < getNodeNumElements ?m" "elementList ?m ! k = i" by simp_all
  define u where "u = ?w1"
  have f: "inbox u = Sizes [t] # Handles [h] # Sizes [1] # Globals [i] # Scalars [v] #
             Handles [h] # q"
    "VECTORS u = VECTORS w @ [brk w]" "heap u = (heap w)(brk w := new_vector_t ?m)"
    "my_rank u = my_rank w"
    by (simp_all add: u_def)
  have "size_at u 0 t = size_at w (2 + 0) t" "size_at u 2 1 = size_at w (2 + 2) 1"
    by (rule size_at_after; simp add: u_def)+
  with a(2,3,4) have s: "size_at u 0 t = my_rank u" "size_at u 2 1 = 1"
    by (simp_all add: size_intact_def f)
  have nv: "new_vector w = Inr u"
    using a(1,5) by (simp add: new_vector_eval u_def)
  have "add_evec u =
     and_then (at_handle (VECTORS u) h) (\<lambda>addr.
     and_then (sum_into [i] [v] [0..<size_at u 2 1] (heap u addr)) (\<lambda>vec.
       Inr (u\<lparr>inbox := Handles [h] # q,
              wire := wire u @ [Received Bcast MPI_SIZE 1 (Sizes [t]),
                                Received Recv MPI_HANDLE 1 (Handles [h]),
                                Received Recv MPI_SIZE 1 (Sizes [1]),
                                Received Recv MPI_GLOBAL (size_at u 2 1) (Globals [i]),
                                Received Recv MPI_SCALAR (size_at u 2 1) (Scalars [v])],
              heap := (heap u)(addr := vec)\<rparr>)))"
    by (rule add_evec_target [OF f(1) s(1)]) (simp_all add: s(2))
  then have ae: "add_evec u =
      Inr (u\<lparr>inbox := Handles [h] # q,
              wire := wire u @ [Received Bcast MPI_SIZE 1 (Sizes [t]),
                                Received Recv MPI_HANDLE 1 (Handles [h]),
                                Received Recv MPI_SIZE 1 (Sizes [1]),
                                Received Recv MPI_GLOBAL 1 (Globals [i]),
                                Received Recv MPI_SCALAR 1 (Scalars [v])],
              heap := (heap u)
                 (brk w := \<lparr>vector_map = ?m,
                            vector_values = (replicate (getNodeNumElements ?m) 0) [k := v]\<rparr>)\<rparr>)"
    using a(6,7,8) k
    by (simp add: s(2) f at_handle_eval in_bounds_fresh nth_fresh sum_into_single
          sumIntoGlobalValue_def new_vector_t_def del: upt_Suc)
  have "and_then (and_then (new_vector w) add_evec) get_vector =
      get_vector (u\<lparr>inbox := Handles [h] # q,
              wire := wire u @ [Received Bcast MPI_SIZE 1 (Sizes [t]),
                                Received Recv MPI_HANDLE 1 (Handles [h]),
                                Received Recv MPI_SIZE 1 (Sizes [1]),
                                Received Recv MPI_GLOBAL 1 (Globals [i]),
                                Received Recv MPI_SCALAR 1 (Scalars [v])],
              heap := (heap u)
                 (brk w := \<lparr>vector_map = ?m,
                            vector_values = (replicate (getNodeNumElements ?m) 0) [k := v]\<rparr>)\<rparr>)"
    by (simp only: nv ae and_then_Inr)
  then show "and_then (and_then (new_vector w) add_evec) get_vector =
        Inr (w\<lparr>VECTORS := VECTORS w @ [brk w],
               heap := (heap w)
                 (brk w := \<lparr>vector_map = ?m,
                            vector_values = (replicate (getNodeNumElements ?m) 0) [k := v]\<rparr>),
               brk := Suc (brk w),
               inbox := q,
               wire := wire w @
                 [Received Bcast MPI_HANDLE 1 (Handles [imap]),
                  Gather MPI_HANDLE [h],
                  Received Bcast MPI_SIZE 1 (Sizes [t]),
                  Received Recv MPI_HANDLE 1 (Handles [h]),
                  Received Recv MPI_SIZE 1 (Sizes [1]),
                  Received Recv MPI_GLOBAL 1 (Globals [i]),
                  Received Recv MPI_SCALAR 1 (Scalars [v]),
                  Received Bcast MPI_HANDLE 1 (Handles [h]),
                  Gatherv MPI_SCALAR ((replicate (getNodeNumElements ?m) 0) [k := v])]\<rparr>)"
    using a(6,7)
    by (simp add: get_vector_eval in_bounds_fresh nth_fresh getData_def u_def)
next
  assume a: "inbox w = Handles [imap] # Sizes [t] # Handles [h] # q"
    "size_at w 2 t \<noteq> my_rank w"
    "in_bounds (MAPS w) imap" "length (VECTORS w) < 2 ^ 31"
    "h = size_to_handle (length (VECTORS w))"
  let ?m = "MAPS w ! nat (sint imap)"
  let ?w1 = "w\<lparr>VECTORS := VECTORS w @ [brk w],
            heap := (heap w)(brk w := new_vector_t ?m),
            brk := Suc (brk w),
            inbox := Sizes [t] # Handles [h] # q,
            wire := wire w @ [Received Bcast MPI_HANDLE 1 (Handles [imap]),
                              Gather MPI_HANDLE [size_to_handle (length (VECTORS w))]]\<rparr>"
  define u where "u = ?w1"
  have f: "inbox u = Sizes [t] # Handles [h] # q" "my_rank u = my_rank w"
    by (simp_all add: u_def)
  have "size_at u 0 t = size_at w (2 + 0) t"
    by (rule size_at_after; simp add: u_def)
  with a(2) have s: "size_at u 0 t \<noteq> my_rank u"
    by (simp add: f)
  have nv: "new_vector w = Inr u"
    using a(1,3) by (simp add: new_vector_eval u_def)
  have ae: "add_evec u =
      Inr (u\<lparr>inbox := Handles [h] # q,
              wire := wire u @ [Received Bcast MPI_SIZE 1 (Sizes [t])]\<rparr>)"
    by (rule add_evec_other [OF f(1) s])
  have "and_then (and_then (new_vector w) add_evec) get_vector =
      get_vector (u\<lparr>inbox := Handles [h] # q,
              wire := wire u @ [Received Bcast MPI_SIZE 1 (Sizes [t])]\<rparr>)"
    by (simp only: nv ae and_then_Inr)
  then show "and_then (and_then (new_vector w) add_evec) get_vector =
        Inr (w\<lparr>VECTORS := VECTORS w @ [brk w],
               heap := (heap w)(brk w := new_vector_t (MAPS w ! nat (sint imap))),
               brk := Suc (brk w),
               inbox := q,
               wire := wire w @
                 [Received Bcast MPI_HANDLE 1 (Handles [imap]),
                  Gather MPI_HANDLE [h],
                  Received Bcast MPI_SIZE 1 (Sizes [t]),
                  Received Bcast MPI_HANDLE 1 (Handles [h]),
                  Gatherv MPI_SCALAR
                    (replicate (getNodeNumElements (MAPS w ! nat (sint imap))) 0)]\<rparr>)"
    using a(4,5)
    by (simp add: get_vector_eval in_bounds_fresh nth_fresh new_vector_t_def getData_def
        u_def)
next
  assume a: "inbox w = Sizes [t] # Handles [h] # Sizes [1] # Globals [i] #
      Scalars [v] # Handles [h] # q"
    "unat t = my_rank w" "size_intact w 0 t" "size_intact w 2 1"
    "in_bounds (VECTORS w) h" "a = VECTORS w ! nat (sint h)"
    "getLocalElement (vector_map (heap w a)) i = Some k"
  have s: "size_at w 0 t = my_rank w" "size_at w 2 1 = 1"
    using a(2,3,4) by (simp_all add: size_intact_def)
  have "add_evec w =
     and_then (at_handle (VECTORS w) h) (\<lambda>addr.
     and_then (sum_into [i] [v] [0..<size_at w 2 1] (heap w addr)) (\<lambda>vec.
       Inr (w\<lparr>inbox := Handles [h] # q,
              wire := wire w @ [Received Bcast MPI_SIZE 1 (Sizes [t]),
                                Received Recv MPI_HANDLE 1 (Handles [h]),
                                Received Recv MPI_SIZE 1 (Sizes [1]),
                                Received Recv MPI_GLOBAL (size_at w 2 1) (Globals [i]),
                                Received Recv MPI_SCALAR (size_at w 2 1) (Scalars [v])],
              heap := (heap w)(addr := vec)\<rparr>)))"
    by (rule add_evec_target [OF a(1) s(1)]) (simp_all add: s(2))
  then have ae: "add_evec w =
      Inr (w\<lparr>inbox := Handles [h] # q,
              wire := wire w @ [Received Bcast MPI_SIZE 1 (Sizes [t]),
                                Received Recv MPI_HANDLE 1 (Handles [h]),
                                Received Recv MPI_SIZE 1 (Sizes [1]),
                                Received Recv MPI_GLOBAL 1 (Globals [i]),
                                Received Recv MPI_SCALAR 1 (Scalars [v])],
              heap := (heap w)
                 (a := (heap w a)\<lparr>vector_values :=
                          (getData (heap w a))[k := getData (heap w a) ! k + v]\<rparr>)\<rparr>)"
    using a(5,6,7)
    by (simp add: s(2) at_handle_eval sum_into_single sumIntoGlobalValue_def getData_def
          del: upt_Suc)
  show "and_then (add_evec w) get_vector =
        Inr (w\<lparr>inbox := q,
               wire := wire w @
                 [Received Bcast MPI_SIZE 1 (Sizes [t]),
                  Received Recv MPI_HANDLE 1 (Handles [h]),
                  Received Recv MPI_SIZE 1 (Sizes [1]),
                  Received Recv MPI_GLOBAL 1 (Globals [i]),
                  Received Recv MPI_SCALAR 1 (Scalars [v]),
                  Received Bcast MPI_HANDLE 1 (Handles [h]),
                  Gatherv MPI_SCALAR ((getData (heap w a))[k := getData (heap w a) ! k + v])],
               heap := (heap w)
                 (a := (heap w a)\<lparr>vector_values :=
                          (getData (heap w a))[k := getData (heap w a) ! k + v]\<rparr>)\<rparr>)"
    using a(5,6)
    by (simp add: ae get_vector_eval getData_def)
qed


theorem accumulate_read_round_trip_witness:
  "and_then (and_then
      (new_vector ((start 1 [Handles [0], Sizes [1], Handles [0], Sizes [1], Globals [2],
                             Scalars [7], Handles [0]])
                     \<lparr>MAPS := [new_map_t 4 [2, 3] 0]\<rparr>)) add_evec) get_vector =
     Inr ((start 1 [])
            \<lparr>VECTORS := [0], MAPS := [new_map_t 4 [2, 3] 0],
              heap := (heap (start 1 []))
                 (0 := \<lparr>vector_map = new_map_t 4 [2, 3] 0, vector_values = [7, 0]\<rparr>),
              brk := 1,
              wire := [Received Bcast MPI_HANDLE 1 (Handles [0]),
                       Gather MPI_HANDLE [0],
                       Received Bcast MPI_SIZE 1 (Sizes [1]),
                       Received Recv MPI_HANDLE 1 (Handles [0]),
                       Received Recv MPI_SIZE 1 (Sizes [1]),
                       Received Recv MPI_GLOBAL 1 (Globals [2]),
                       Received Recv MPI_SCALAR 1 (Scalars [7]),
                       Received Bcast MPI_HANDLE 1 (Handles [0]),
                       Gatherv MPI_SCALAR [7, 0]]\<rparr>) \<and>
   and_then (and_then
      (new_vector ((start 0 [Handles [0], Sizes [1], Handles [0]])
                     \<lparr>MAPS := [new_map_t 4 [0, 1] 0]\<rparr>)) add_evec) get_vector =
     Inr ((start 0 [])
            \<lparr>VECTORS := [0], MAPS := [new_map_t 4 [0, 1] 0],
              heap := (heap (start 0 []))(0 := new_vector_t (new_map_t 4 [0, 1] 0)),
              brk := 1,
              wire := [Received Bcast MPI_HANDLE 1 (Handles [0]),
                       Gather MPI_HANDLE [0],
                       Received Bcast MPI_SIZE 1 (Sizes [1]),
                       Received Bcast MPI_HANDLE 1 (Handles [0]),
                       Gatherv MPI_SCALAR [0, 0]]\<rparr>) \<and>
   and_then
      (add_evec ((start 1 [Sizes [1], Handles [0], Sizes [1], Globals [2], Scalars [5],
                           Handles [0]])
                   \<lparr>VECTORS := [0], MAPS := [new_map_t 4 [2, 3] 0],
                     heap := (heap (start 1 []))
                        (0 := \<lparr>vector_map = new_map_t 4 [2, 3] 0, vector_values = [7, 0]\<rparr>),
                     brk := 1\<rparr>)) get_vector =
     Inr ((start 1 [])
            \<lparr>VECTORS := [0], MAPS := [new_map_t 4 [2, 3] 0],
              heap := (heap (start 1 []))
                 (0 := \<lparr>vector_map = new_map_t 4 [2, 3] 0, vector_values = [12, 0]\<rparr>),
              brk := 1,
              wire := [Received Bcast MPI_SIZE 1 (Sizes [1]),
                       Received Recv MPI_HANDLE 1 (Handles [0]),
                       Received Recv MPI_SIZE 1 (Sizes [1]),
                       Received Recv MPI_GLOBAL 1 (Globals [2]),
                       Received Recv MPI_SCALAR 1 (Scalars [5]),
                       Received Bcast MPI_HANDLE 1 (Handles [0]),
                       Gatherv MPI_SCALAR [12, 0]]\<rparr>)"
proof -
  let ?w1 = "(start 1 [Handles [0], Sizes [1], Handles [0], Sizes [1], Globals [2],
                             Scalars [7], Handles [0]])
                     \<lparr>MAPS := [new_map_t 4 [2, 3] 0]\<rparr>"
  let ?w0 = "(start 0 [Handles [0], Sizes [1], Handles [0]])
                     \<lparr>MAPS := [new_map_t 4 [0, 1] 0]\<rparr>"
  let ?w2 = "(start 1 [Sizes [1], Handles [0], Sizes [1], Globals [2], Scalars [5],
                           Handles [0]])
                   \<lparr>VECTORS := [0], MAPS := [new_map_t 4 [2, 3] 0],
                     heap := (heap (start 1 []))
                        (0 := \<lparr>vector_map = new_map_t 4 [2, 3] 0, vector_values = [7, 0]\<rparr>),
                     brk := 1\<rparr>"
  note t = accumulate_read_round_trip [where h = 0 and imap = 0 and i = 2 and k = 0
      and q = "[]" and t = 1 and a = 0]
  have a: "and_then (and_then (new_vector ?w1) add_evec) get_vector = Inr
            ((start 1 [])
            \<lparr>VECTORS := [0], MAPS := [new_map_t 4 [2, 3] 0],
              heap := (heap (start 1 []))
                 (0 := \<lparr>vector_map = new_map_t 4 [2, 3] 0, vector_values = [7, 0]\<rparr>),
              brk := 1,
              wire := [Received Bcast MPI_HANDLE 1 (Handles [0]),
                       Gather MPI_HANDLE [0],
                       Received Bcast MPI_SIZE 1 (Sizes [1]),
                       Received Recv MPI_HANDLE 1 (Handles [0]),
                       Received Recv MPI_SIZE 1 (Sizes [1]),
                       Received Recv MPI_GLOBAL 1 (Globals [2]),
                       Received Recv MPI_SCALAR 1 (Scalars [7]),
                       Received Bcast MPI_HANDLE 1 (Handles [0]),
                       Gatherv MPI_SCALAR [7, 0]]\<rparr>)"
    using t [where w = ?w1 and v = 7, THEN conjunct1]
    by (simp add: start_def start_on_def in_bounds_def size_to_handle_def getLocalElement_def
        new_map_t_def getNodeNumElements_def size_intact_def size_at_zero)
  have b: "and_then (and_then (new_vector ?w0) add_evec) get_vector = Inr
           ((start 0 [])
            \<lparr>VECTORS := [0], MAPS := [new_map_t 4 [0, 1] 0],
              heap := (heap (start 0 []))(0 := new_vector_t (new_map_t 4 [0, 1] 0)),
              brk := 1,
              wire := [Received Bcast MPI_HANDLE 1 (Handles [0]),
                       Gather MPI_HANDLE [0],
                       Received Bcast MPI_SIZE 1 (Sizes [1]),
                       Received Bcast MPI_HANDLE 1 (Handles [0]),
                       Gatherv MPI_SCALAR [0, 0]]\<rparr>)"
    using t [where w = ?w0 and v = 7, THEN conjunct2, THEN conjunct1]
    by (simp add: start_def start_on_def in_bounds_def size_to_handle_def getLocalElement_def
        new_map_t_def getNodeNumElements_def size_intact_def size_at_zero)
  have c: "and_then (add_evec ?w2) get_vector = Inr
           ((start 1 [])
            \<lparr>VECTORS := [0], MAPS := [new_map_t 4 [2, 3] 0],
              heap := (heap (start 1 []))
                 (0 := \<lparr>vector_map = new_map_t 4 [2, 3] 0, vector_values = [12, 0]\<rparr>),
              brk := 1,
              wire := [Received Bcast MPI_SIZE 1 (Sizes [1]),
                       Received Recv MPI_HANDLE 1 (Handles [0]),
                       Received Recv MPI_SIZE 1 (Sizes [1]),
                       Received Recv MPI_GLOBAL 1 (Globals [2]),
                       Received Recv MPI_SCALAR 1 (Scalars [5]),
                       Received Bcast MPI_HANDLE 1 (Handles [0]),
                       Gatherv MPI_SCALAR [12, 0]]\<rparr>)"
    using t [where w = ?w2 and v = 5, THEN conjunct2, THEN conjunct2]
    by (simp add: start_def start_on_def in_bounds_def getLocalElement_def new_map_t_def
        getData_def size_intact_def size_at_zero)
  from a b c show ?thesis by (intro conjI)
qed



text \<open>
  C10.  Let a worker (of any rank) create a vector from the map \<open>m\<close>, in a table of fewer
  than \<open>2^31\<close> vectors, so that the gathered handle \<open>h\<close> names it.  The new vector holds 0
  in each of its slots, one per element that \<open>m\<close> assigns to this worker.  After any
  commands other than \<open>add_evec\<close> (code 2), a \<open>get_vector\<close> on \<open>h\<close> gathers that many
  zeros.
\<close>

theorem fresh_vector_reads_zero:
  assumes "new_vector w = Inr w1" and "inbox w = Handles [imap] # p"
    and "length (VECTORS w) < 2 ^ 31" and "h = size_to_handle (length (VECTORS w))"
    and "\<forall>c\<in>set cs. c < 6 \<and> c \<noteq> 2" and "run_handlers cs w1 = Inr w2"
    and "inbox w2 = Handles [h] # q"
  shows "new_events w w1 =
           [Received Bcast MPI_HANDLE 1 (Handles [imap]), Gather MPI_HANDLE [h]] \<and>
         getData (heap w1 (brk w)) =
           replicate (getNodeNumElements (MAPS w ! nat (sint imap))) 0 \<and>
         get_vector w2 =
           Inr (w2\<lparr>inbox := q,
                   wire := wire w2 @
                     [Received Bcast MPI_HANDLE 1 (Handles [h]),
                      Gatherv MPI_SCALAR
                        (replicate (getNodeNumElements (MAPS w ! nat (sint imap))) 0)]\<rparr>)"
proof -
  let ?L = "length (VECTORS w)"
  from assms(1,2) have w1: "w1 = w\<lparr>VECTORS := VECTORS w @ [brk w],
            heap := (heap w)(brk w := new_vector_t (MAPS w ! nat (sint imap))),
            brk := Suc (brk w),
            inbox := p,
            wire := wire w @ [Received Bcast MPI_HANDLE 1 (Handles [imap]),
                              Gather MPI_HANDLE [size_to_handle (length (VECTORS w))]]\<rparr>"
    by (elim new_vectorE) simp
  have j: "?L < length (VECTORS w1)" "VECTORS w1 ! ?L < brk w1" "VECTORS w1 ! ?L = brk w"
    by (simp_all add: w1)
  from run_handlers_vector_kept [OF assms(6,5) j(1,2)]
  have k: "?L < length (VECTORS w2)" "VECTORS w2 ! ?L = brk w"
    "heap w2 (VECTORS w2 ! ?L) = heap w1 (brk w)"
    using j(3) by metis+
  have s: "sint h = int ?L"
    using assms(3,4) by (simp add: sint_size_to_handle)
  have b: "in_bounds (VECTORS w2) h"
    using k(1) s by (simp add: in_bounds_def)
  have z: "getData (heap w1 (brk w)) =
      replicate (getNodeNumElements (MAPS w ! nat (sint imap))) 0"
    by (simp add: w1 getData_def new_vector_t_def)
  have "get_vector w2 =
           Inr (w2\<lparr>inbox := q,
                   wire := wire w2 @
                     [Received Bcast MPI_HANDLE 1 (Handles [h]),
                      Gatherv MPI_SCALAR
                        (replicate (getNodeNumElements (MAPS w ! nat (sint imap))) 0)]\<rparr>)"
    using k z s by (simp add: get_vector_eval [OF assms(7) b])
  moreover have "new_events w w1 =
           [Received Bcast MPI_HANDLE 1 (Handles [imap]), Gather MPI_HANDLE [h]]"
    by (simp add: new_events_def w1 assms(4))
  ultimately show ?thesis using z by simp
qed


theorem fresh_vector_reads_zero_witness:
  "new_vector ((start 0 [Handles [0], Handles [0], Handles [0]])\<lparr>MAPS := [new_map_t 4 [0, 1] 0]\<rparr>) =
     Inr ((start 0 [Handles [0], Handles [0]])
        \<lparr>VECTORS := [0], MAPS := [new_map_t 4 [0, 1] 0],
          heap := (heap (start 0 []))(0 := new_vector_t (new_map_t 4 [0, 1] 0)),
          brk := 1,
          wire := [Received Bcast MPI_HANDLE 1 (Handles [0]), Gather MPI_HANDLE [0]]\<rparr>) \<and>
   run_handlers [1] ((start 0 [Handles [0], Handles [0]])
        \<lparr>VECTORS := [0], MAPS := [new_map_t 4 [0, 1] 0],
          heap := (heap (start 0 []))(0 := new_vector_t (new_map_t 4 [0, 1] 0)),
          brk := 1,
          wire := [Received Bcast MPI_HANDLE 1 (Handles [0]), Gather MPI_HANDLE [0]]\<rparr>) =
     Inr ((start 0 [Handles [0]])
        \<lparr>VECTORS := [0, 1], MAPS := [new_map_t 4 [0, 1] 0],
          heap := (heap (start 0 []))
             (0 := new_vector_t (new_map_t 4 [0, 1] 0), 1 := new_vector_t (new_map_t 4 [0, 1] 0)),
          brk := 2,
          wire := [Received Bcast MPI_HANDLE 1 (Handles [0]), Gather MPI_HANDLE [0],
                   Received Bcast MPI_HANDLE 1 (Handles [0]), Gather MPI_HANDLE [1]]\<rparr>) \<and>
   get_vector ((start 0 [Handles [0]])
        \<lparr>VECTORS := [0, 1], MAPS := [new_map_t 4 [0, 1] 0],
          heap := (heap (start 0 []))
             (0 := new_vector_t (new_map_t 4 [0, 1] 0), 1 := new_vector_t (new_map_t 4 [0, 1] 0)),
          brk := 2,
          wire := [Received Bcast MPI_HANDLE 1 (Handles [0]), Gather MPI_HANDLE [0],
                   Received Bcast MPI_HANDLE 1 (Handles [0]), Gather MPI_HANDLE [1]]\<rparr>) =
     Inr ((start 0 [])
        \<lparr>VECTORS := [0, 1], MAPS := [new_map_t 4 [0, 1] 0],
          heap := (heap (start 0 []))
             (0 := new_vector_t (new_map_t 4 [0, 1] 0), 1 := new_vector_t (new_map_t 4 [0, 1] 0)),
          brk := 2,
          wire := [Received Bcast MPI_HANDLE 1 (Handles [0]), Gather MPI_HANDLE [0],
                   Received Bcast MPI_HANDLE 1 (Handles [0]), Gather MPI_HANDLE [1],
                   Received Bcast MPI_HANDLE 1 (Handles [0]), Gatherv MPI_SCALAR [0, 0]]\<rparr>)"
proof -
  have a: "new_vector ((start 0 [Handles [0], Handles [0], Handles [0]])\<lparr>MAPS := [new_map_t 4 [0, 1] 0]\<rparr>) =
     Inr ((start 0 [Handles [0], Handles [0]])
        \<lparr>VECTORS := [0], MAPS := [new_map_t 4 [0, 1] 0],
          heap := (heap (start 0 []))(0 := new_vector_t (new_map_t 4 [0, 1] 0)),
          brk := 1,
          wire := [Received Bcast MPI_HANDLE 1 (Handles [0]), Gather MPI_HANDLE [0]]\<rparr>)"
    by (simp add: start_def start_on_def new_vector_eval in_bounds_def size_to_handle_def)
  have b: "run_handlers [1] ((start 0 [Handles [0], Handles [0]])
        \<lparr>VECTORS := [0], MAPS := [new_map_t 4 [0, 1] 0],
          heap := (heap (start 0 []))(0 := new_vector_t (new_map_t 4 [0, 1] 0)),
          brk := 1,
          wire := [Received Bcast MPI_HANDLE 1 (Handles [0]), Gather MPI_HANDLE [0]]\<rparr>) =
     Inr ((start 0 [Handles [0]])
        \<lparr>VECTORS := [0, 1], MAPS := [new_map_t 4 [0, 1] 0],
          heap := (heap (start 0 []))
             (0 := new_vector_t (new_map_t 4 [0, 1] 0), 1 := new_vector_t (new_map_t 4 [0, 1] 0)),
          brk := 2,
          wire := [Received Bcast MPI_HANDLE 1 (Handles [0]), Gather MPI_HANDLE [0],
                   Received Bcast MPI_HANDLE 1 (Handles [0]), Gather MPI_HANDLE [1]]\<rparr>)"
    by (simp add: start_def start_on_def FTABLE_def new_vector_eval in_bounds_def size_to_handle_def)
  have c: "get_vector ((start 0 [Handles [0]])
        \<lparr>VECTORS := [0, 1], MAPS := [new_map_t 4 [0, 1] 0],
          heap := (heap (start 0 []))
             (0 := new_vector_t (new_map_t 4 [0, 1] 0), 1 := new_vector_t (new_map_t 4 [0, 1] 0)),
          brk := 2,
          wire := [Received Bcast MPI_HANDLE 1 (Handles [0]), Gather MPI_HANDLE [0],
                   Received Bcast MPI_HANDLE 1 (Handles [0]), Gather MPI_HANDLE [1]]\<rparr>) =
     Inr ((start 0 [])
        \<lparr>VECTORS := [0, 1], MAPS := [new_map_t 4 [0, 1] 0],
          heap := (heap (start 0 []))
             (0 := new_vector_t (new_map_t 4 [0, 1] 0), 1 := new_vector_t (new_map_t 4 [0, 1] 0)),
          brk := 2,
          wire := [Received Bcast MPI_HANDLE 1 (Handles [0]), Gather MPI_HANDLE [0],
                   Received Bcast MPI_HANDLE 1 (Handles [0]), Gather MPI_HANDLE [1],
                   Received Bcast MPI_HANDLE 1 (Handles [0]), Gatherv MPI_SCALAR [0, 0]]\<rparr>)"
    using fresh_vector_reads_zero [OF a _ _ _ _ b, where imap = 0 and h = 0 and q = "[]"
        and p = "[Handles [0], Handles [0]]"]
    by (simp add: start_def start_on_def size_to_handle_def new_map_t_def getNodeNumElements_def)
  from a b c show ?thesis by (intro conjI)
qed


section \<open>Handle numbering\<close>

lemma code_eq: "k < 6 \<Longrightarrow> (c = (of_nat k :: 8 word)) = (unat c = k)"
proof
  assume "k < 6" "c = of_nat k"
  then show "unat c = k" by (simp add: unat_of_nat)
next
  assume "unat c = k"
  then show "c = of_nat k" by auto
qed

lemmas mpi_defs = MPI_HANDLE_def MPI_SIZE_def MPI_GLOBAL_def MPI_SCALAR_def

lemma handler_round:
  assumes "c < 6" and "(FTABLE ! c) w1 = Inr w2"
  shows "\<exists>evs. wire w2 = wire w1 @ evs \<and>
           (\<forall>k act es. gathered_in k act (evs @ es) =
              (if act \<and> c \<in> {0, 1, 4, 5} then [size_to_handle (table_length c w1)] else []) @
              gathered_in k act es) \<and>
           (\<forall>k. table_length k w2 =
              (if k = c \<and> c \<in> {0, 1, 4, 5} then Suc (table_length k w1)
               else table_length k w1))"
proof -
  from assms(1) have "c = 0 \<or> c = 1 \<or> c = 2 \<or> c = 3 \<or> c = 4 \<or> c = 5"
    by (rule below_6)
  then show ?thesis
  proof (elim disjE)
    assume c: "c = 0"
    with assms(2) have "new_matrix w1 = Inr w2" by (simp add: FTABLE_def)
    then show ?thesis
      by (elim new_matrixE) (simp add: c table_length_def mpi_defs)
  next
    assume c: "c = 1"
    with assms(2) have "new_vector w1 = Inr w2" by (simp add: FTABLE_def)
    then show ?thesis
      by (elim new_vectorE) (simp add: c table_length_def mpi_defs)
  next
    assume c: "c = 2"
    with assms(2) have "add_evec w1 = Inr w2" by (simp add: FTABLE_def)
    then show ?thesis
      by (cases rule: add_evec_cases) (simp_all add: c table_length_def mpi_defs)
  next
    assume c: "c = 3"
    with assms(2) have "get_vector w1 = Inr w2" by (simp add: FTABLE_def)
    then show ?thesis
      by (elim get_vectorE) (simp add: c table_length_def mpi_defs)
  next
    assume c: "c = 4"
    with assms(2) have "new_map w1 = Inr w2" by (simp add: FTABLE_def)
    then show ?thesis
      by (elim new_mapE) (simp add: c table_length_def mpi_defs)
  next
    assume c: "c = 5"
    with assms(2) have "new_graph w1 = Inr w2" by (simp add: FTABLE_def)
    then show ?thesis
      by (cases rule: new_graph_cases) (simp add: c table_length_def mpi_defs)
  qed
qed

lemma session_handles:
  assumes k: "k \<in> {0, 1, 4, 5}"
  shows "dispatch_loop w = Inr w' \<Longrightarrow>
     \<exists>evs. wire w' = wire w @ evs \<and>
       (\<forall>b. gathered_in k b evs =
          map size_to_handle [table_length k w ..< table_length k w']) \<and>
       table_length k w \<le> table_length k w'"
proof (induction w rule: dispatch_loop.induct)
  case (1 w)
  from k have k6: "k < 6" by auto
  from "1.prems" obtain c w1 where g: "get_char Bcast MPI_CHAR w = Inr (c, w1)"
    by (subst (asm) dispatch_loop.simps) (auto split: sum.splits)
  then obtain q where q: "inbox w = Chars [c] # q"
    and w1: "w1 = w\<lparr>inbox := q, wire := wire w @ [Received Bcast MPI_CHAR 1 (Chars [c])]\<rparr>"
    by (elim get_charE)
  have t1: "table_length k w1 = table_length k w"
    by (simp add: w1 table_length_def)
  show ?case
  proof (cases "6 \<le> unat c")
    case True
    with "1.prems" q have "w' = w1"
      by (simp add: dispatch_loop_step w1)
    then show ?thesis
      by (simp add: w1 table_length_def)
  next
    case False
    with "1.prems" q obtain w2 where h: "(FTABLE ! unat c) w1 = Inr w2"
      and r: "dispatch_loop w2 = Inr w'"
      by (auto simp: dispatch_loop_step w1 elim!: and_thenE)
    from False have c6: "unat c < 6" and nt: "\<not> NTOKENS \<le> unat c"
      by (simp_all add: NTOKENS_6)
    from handler_round [OF c6 h] obtain evs where
      e: "wire w2 = wire w1 @ evs"
      and ga: "\<And>k act es. gathered_in k act (evs @ es) =
              (if act \<and> unat c \<in> {0, 1, 4, 5}
               then [size_to_handle (table_length (unat c) w1)] else []) @
              gathered_in k act es"
      and tl: "\<And>k. table_length k w2 =
              (if k = unat c \<and> unat c \<in> {0, 1, 4, 5} then Suc (table_length k w1)
               else table_length k w1)"
      by blast
    from "1.IH" [OF g refl nt h r] obtain evs2 where
      e2: "wire w' = wire w2 @ evs2"
      and g2: "\<And>b. gathered_in k b evs2 =
          map size_to_handle [table_length k w2 ..< table_length k w']"
      and m2: "table_length k w2 \<le> table_length k w'"
      by blast
    let ?evs = "Received Bcast MPI_CHAR 1 (Chars [c]) # evs @ evs2"
    have a: "wire w' = wire w @ ?evs"
      by (simp add: e2 e w1)
    have b: "gathered_in k b ?evs =
          map size_to_handle [table_length k w ..< table_length k w']" for b
    proof (cases "unat c = k")
      case True
      with k tl [of k] t1 have "table_length k w2 = Suc (table_length k w)"
        by auto
      with m2 have "[table_length k w ..< table_length k w'] =
          table_length k w # [table_length k w2 ..< table_length k w']"
        by (simp add: upt_conv_Cons)
      with True k show ?thesis
        by (auto simp: ga g2 code_eq [OF k6] t1)
    next
      case False
      with tl [of k] t1 have "table_length k w2 = table_length k w"
        by auto
      with False show ?thesis
        by (simp add: ga g2 code_eq [OF k6])
    qed
    have c: "table_length k w \<le> table_length k w'"
      using m2 tl [of k] t1 by (auto split: if_splits)
    from a b c show ?thesis by blast
  qed
qed


text \<open>
  C2.  A creation gathers the length of its table, converted to \<open>handle_t\<close>, a 32-bit
  \<open>int\<close>.  As stated for every number of creations the property fails: in a table of
  \<open>2^31\<close> vectors, the next \<open>new_vector\<close> gathers the handle \<open>-2^31\<close>, and not \<open>2^31\<close>.
\<close>

theorem handle_wraps_counterexample:
  "dispatch_loop ((start 0 [Chars [1], Handles [0], Chars [6]])
        \<lparr>VECTORS := [0..<2147483648], MAPS := [new_map_t 4 [0, 1] 0], brk := 2147483648\<rparr>) =
     Inr ((start 0 [])
        \<lparr>VECTORS := [0..<2147483648] @ [2147483648], MAPS := [new_map_t 4 [0, 1] 0],
          heap := (heap (start 0 []))(2147483648 := new_vector_t (new_map_t 4 [0, 1] 0)),
          brk := 2147483649,
          wire := [Received Bcast MPI_CHAR 1 (Chars [1]),
                   Received Bcast MPI_HANDLE 1 (Handles [0]),
                   Gather MPI_HANDLE [size_to_handle 2147483648],
                   Received Bcast MPI_CHAR 1 (Chars [6])]\<rparr>) \<and>
   table_length 1 ((start 0 [Chars [1], Handles [0], Chars [6]])
        \<lparr>VECTORS := [0..<2147483648], MAPS := [new_map_t 4 [0, 1] 0], brk := 2147483648\<rparr>) = 2147483648 \<and>
   map sint (gathered_in 1 False
      (new_events ((start 0 [Chars [1], Handles [0], Chars [6]])
        \<lparr>VECTORS := [0..<2147483648], MAPS := [new_map_t 4 [0, 1] 0], brk := 2147483648\<rparr>)
         ((start 0 [])
        \<lparr>VECTORS := [0..<2147483648] @ [2147483648], MAPS := [new_map_t 4 [0, 1] 0],
          heap := (heap (start 0 []))(2147483648 := new_vector_t (new_map_t 4 [0, 1] 0)),
          brk := 2147483649,
          wire := [Received Bcast MPI_CHAR 1 (Chars [1]),
                   Received Bcast MPI_HANDLE 1 (Handles [0]),
                   Gather MPI_HANDLE [size_to_handle 2147483648],
                   Received Bcast MPI_CHAR 1 (Chars [6])]\<rparr>))) = [- 2147483648]"
  by (simp add: start_def start_on_def dispatch_loop.simps get_eval NTOKENS_6 FTABLE_def
      new_vector_eval in_bounds_def size_to_handle_def table_length_def new_events_def
      mpi_defs)


text \<open>
  C2, amended.  For each of the four tables (by the code \<open>k\<close> of its creation command: 0
  matrices, 1 vectors, 4 maps, 5 graphs) and every session that returns and leaves at most
  \<open>2^31\<close> entries in the table: the handles gathered in the rounds of code \<open>k\<close> are, in
  creation order, the table lengths at creation time, \<open>table_length k w, ...,
  table_length k w' - 1\<close>.  From the empty table of process start the \<open>j\<close>-th creation
  gathers \<open>j - 1\<close>; handles increase by one, and none is reused.
\<close>

theorem handles_count_up:
  assumes "dispatch_loop w = Inr w'" and "k \<in> {0, 1, 4, 5}"
    and "table_length k w' \<le> 2 ^ 31"
  shows "map sint (gathered_in k b (new_events w w')) =
           map int [table_length k w ..< table_length k w']"
proof -
  from session_handles [OF assms(2,1)] obtain evs where
    e: "wire w' = wire w @ evs"
    and g: "gathered_in k b evs = map size_to_handle [table_length k w ..< table_length k w']"
    by blast
  have "map sint (map size_to_handle [table_length k w ..< table_length k w']) =
      map int [table_length k w ..< table_length k w']"
    using assms(3) by (simp add: sint_size_to_handle)
  with e g show ?thesis
    by (simp add: new_events_def)
qed


theorem handles_count_up_witness:
  "dispatch_loop ((start 0 [Chars [1], Handles [0], Chars [1], Handles [0], Chars [9]])\<lparr>MAPS := [new_map_t 4 [0, 1] 0]\<rparr>) =
     Inr ((start 0 [])
        \<lparr>VECTORS := [0, 1], MAPS := [new_map_t 4 [0, 1] 0],
          heap := (heap (start 0 []))
             (0 := new_vector_t (new_map_t 4 [0, 1] 0), 1 := new_vector_t (new_map_t 4 [0, 1] 0)),
          brk := 2,
          wire := [Received Bcast MPI_CHAR 1 (Chars [1]),
                   Received Bcast MPI_HANDLE 1 (Handles [0]), Gather MPI_HANDLE [0],
                   Received Bcast MPI_CHAR 1 (Chars [1]),
                   Received Bcast MPI_HANDLE 1 (Handles [0]), Gather MPI_HANDLE [1],
                   Received Bcast MPI_CHAR 1 (Chars [9])]\<rparr>) \<and>
   map sint (gathered_in 1 False
      (new_events ((start 0 [Chars [1], Handles [0], Chars [1], Handles [0], Chars [9]])\<lparr>MAPS := [new_map_t 4 [0, 1] 0]\<rparr>)
         ((start 0 [])
        \<lparr>VECTORS := [0, 1], MAPS := [new_map_t 4 [0, 1] 0],
          heap := (heap (start 0 []))
             (0 := new_vector_t (new_map_t 4 [0, 1] 0), 1 := new_vector_t (new_map_t 4 [0, 1] 0)),
          brk := 2,
          wire := [Received Bcast MPI_CHAR 1 (Chars [1]),
                   Received Bcast MPI_HANDLE 1 (Handles [0]), Gather MPI_HANDLE [0],
                   Received Bcast MPI_CHAR 1 (Chars [1]),
                   Received Bcast MPI_HANDLE 1 (Handles [0]), Gather MPI_HANDLE [1],
                   Received Bcast MPI_CHAR 1 (Chars [9])]\<rparr>))) = [0, 1]"
proof -
  have a: "dispatch_loop ((start 0 [Chars [1], Handles [0], Chars [1], Handles [0], Chars [9]])\<lparr>MAPS := [new_map_t 4 [0, 1] 0]\<rparr>) =
     Inr ((start 0 [])
        \<lparr>VECTORS := [0, 1], MAPS := [new_map_t 4 [0, 1] 0],
          heap := (heap (start 0 []))
             (0 := new_vector_t (new_map_t 4 [0, 1] 0), 1 := new_vector_t (new_map_t 4 [0, 1] 0)),
          brk := 2,
          wire := [Received Bcast MPI_CHAR 1 (Chars [1]),
                   Received Bcast MPI_HANDLE 1 (Handles [0]), Gather MPI_HANDLE [0],
                   Received Bcast MPI_CHAR 1 (Chars [1]),
                   Received Bcast MPI_HANDLE 1 (Handles [0]), Gather MPI_HANDLE [1],
                   Received Bcast MPI_CHAR 1 (Chars [9])]\<rparr>)"
    by (simp add: start_def start_on_def dispatch_loop.simps get_eval NTOKENS_6 FTABLE_def
        new_vector_eval in_bounds_def size_to_handle_def)
  have k: "(1::nat) \<in> {0, 1, 4, 5}" by simp
  have b: "table_length 1 ((start 0 [])
        \<lparr>VECTORS := [0, 1], MAPS := [new_map_t 4 [0, 1] 0],
          heap := (heap (start 0 []))
             (0 := new_vector_t (new_map_t 4 [0, 1] 0), 1 := new_vector_t (new_map_t 4 [0, 1] 0)),
          brk := 2,
          wire := [Received Bcast MPI_CHAR 1 (Chars [1]),
                   Received Bcast MPI_HANDLE 1 (Handles [0]), Gather MPI_HANDLE [0],
                   Received Bcast MPI_CHAR 1 (Chars [1]),
                   Received Bcast MPI_HANDLE 1 (Handles [0]), Gather MPI_HANDLE [1],
                   Received Bcast MPI_CHAR 1 (Chars [9])]\<rparr>) \<le> 2 ^ 31"
    by (simp add: table_length_def start_def start_on_def)
  from handles_count_up [OF a k b, of False]
  have "map sint (gathered_in 1 False
      (new_events ((start 0 [Chars [1], Handles [0], Chars [1], Handles [0], Chars [9]])\<lparr>MAPS := [new_map_t 4 [0, 1] 0]\<rparr>)
         ((start 0 [])
        \<lparr>VECTORS := [0, 1], MAPS := [new_map_t 4 [0, 1] 0],
          heap := (heap (start 0 []))
             (0 := new_vector_t (new_map_t 4 [0, 1] 0), 1 := new_vector_t (new_map_t 4 [0, 1] 0)),
          brk := 2,
          wire := [Received Bcast MPI_CHAR 1 (Chars [1]),
                   Received Bcast MPI_HANDLE 1 (Handles [0]), Gather MPI_HANDLE [0],
                   Received Bcast MPI_CHAR 1 (Chars [1]),
                   Received Bcast MPI_HANDLE 1 (Handles [0]), Gather MPI_HANDLE [1],
                   Received Bcast MPI_CHAR 1 (Chars [9])]\<rparr>))) = [0, 1]"
    by (simp add: table_length_def start_def start_on_def upt_rec [of 0] upt_rec [of 1] upt_rec [of 2])
  with a show ?thesis by (intro conjI)
qed


section \<open>Handle resolution\<close>

text \<open>
  C7.  A handle is in bounds of a table when it is not negative and below the table length,
  and resolving an in-bounds handle returns the stored object.  A round whose handle is out
  of bounds fails with \<open>InvalidHandle\<close> in the worker that resolves it: \<open>new_vector\<close> and
  \<open>new_graph\<close> on the map handle, \<open>new_matrix\<close> on the graph handle, \<open>get_vector\<close> on the
  vector handle, and \<open>add_evec\<close> on the vector handle in the worker that finds its own
  rank in the broadcast target, the only one that receives it.  The failure is fatal: it
  ends the dispatch loop, and \<open>main\<close> aborts.
\<close>

theorem invalid_handle_is_fatal:
  "(\<not> in_bounds (MAPS w) h \<and> inbox w = Handles [h] # q \<longrightarrow>
      new_vector w = Inl InvalidHandle \<and> new_graph w = Inl InvalidHandle) \<and>
   (\<not> in_bounds (GRAPHS w) h \<and> inbox w = Handles [h] # q \<longrightarrow>
      new_matrix w = Inl InvalidHandle) \<and>
   (\<not> in_bounds (VECTORS w) h \<and> inbox w = Handles [h] # q \<longrightarrow>
      get_vector w = Inl InvalidHandle) \<and>
   (\<not> in_bounds (VECTORS w) h \<and> size_at w 0 t = my_rank w \<and>
    length idx = size_at w 2 n \<and> length data = size_at w 2 n \<and>
    inbox w = Sizes [t] # Handles [h] # Sizes [n] # Globals idx # Scalars data # q \<longrightarrow>
      add_evec w = Inl InvalidHandle) \<and>
   (inbox w = Chars [c] # q' \<and> unat c < 6 \<and>
    (FTABLE ! unat c)
       (w\<lparr>inbox := q', wire := wire w @ [Received Bcast MPI_CHAR 1 (Chars [c])]\<rparr>) = Inl e \<longrightarrow>
      dispatch_loop w = Inl e) \<and>
   (dispatch_loop (w\<lparr>wire := wire w @ [Init]\<rparr>) = Inl e \<longrightarrow>
      main [prog, ''eventloop''] w = Abort e) \<and>
   (in_bounds xs h \<longleftrightarrow> 0 \<le> sint h \<and> sint h < int (length xs)) \<and>
   (in_bounds xs h \<longrightarrow> at_handle xs h = Inr (xs ! nat (sint h)))"
proof (intro conjI impI; (elim conjE)?)
  show "in_bounds xs h \<longleftrightarrow> 0 \<le> sint h \<and> sint h < int (length xs)"
    by (auto simp: in_bounds_def)
  show "at_handle xs h = Inr (xs ! nat (sint h))" if "in_bounds xs h"
    using that by (rule at_handle_eval)
next
  assume "\<not> in_bounds (MAPS w) h" "inbox w = Handles [h] # q"
  then show "new_vector w = Inl InvalidHandle" "new_graph w = Inl InvalidHandle"
    by (simp_all add: new_vector_def new_graph_def get_eval at_handle_out)
next
  assume "\<not> in_bounds (GRAPHS w) h" "inbox w = Handles [h] # q"
  then show "new_matrix w = Inl InvalidHandle"
    by (simp add: new_matrix_def get_eval at_handle_out)
next
  assume "\<not> in_bounds (VECTORS w) h" "inbox w = Handles [h] # q"
  then show "get_vector w = Inl InvalidHandle"
    by (simp add: get_vector_def get_eval at_handle_out)
next
  assume a: "\<not> in_bounds (VECTORS w) h" "size_at w 0 t = my_rank w"
    "length idx = size_at w 2 n" "length data = size_at w 2 n"
    "inbox w = Sizes [t] # Handles [h] # Sizes [n] # Globals idx # Scalars data # q"
  show "add_evec w = Inl InvalidHandle"
    unfolding add_evec_target [OF a(5,2,3,4)] using a(1) by (simp add: at_handle_out)
next
  assume a: "inbox w = Chars [c] # q'" "unat c < 6"
    "(FTABLE ! unat c)
       (w\<lparr>inbox := q', wire := wire w @ [Received Bcast MPI_CHAR 1 (Chars [c])]\<rparr>) = Inl e"
  then show "dispatch_loop w = Inl e"
    by (simp add: dispatch_loop_step)
next
  assume "dispatch_loop (w\<lparr>wire := wire w @ [Init]\<rparr>) = Inl e"
  then show "main [prog, ''eventloop''] w = Abort e"
    by (simp add: main_def eventloop_def)
qed

theorem invalid_handle_is_fatal_witness:
  "new_vector (start 0 [Handles [0]]) = Inl InvalidHandle \<and>
   new_graph (start 0 [Handles [-1]]) = Inl InvalidHandle \<and>
   new_matrix (start 1 [Handles [5]]) = Inl InvalidHandle \<and>
   get_vector (start 1 [Handles [1]]) = Inl InvalidHandle \<and>
   add_evec (start 1 [Sizes [1], Handles [0], Sizes [1], Globals [2], Scalars [7]]) =
     Inl InvalidHandle \<and>
   dispatch_loop (start 0 [Chars [1], Handles [0], Chars [6]]) = Inl InvalidHandle \<and>
   main [''libmatrix'', ''eventloop''] (start 0 [Chars [1], Handles [0], Chars [6]]) =
     Abort InvalidHandle \<and>
   at_handle [10, 20, 30 :: nat] 2 = Inr 30"
proof -
  note t = invalid_handle_is_fatal [where prog = "''libmatrix''"
      and e = InvalidHandle and xs = "[10, 20, 30 :: nat]" and t = 1]
  note u = t [where idx = "[]" and n = 0 and data = "[]" and c = 0 and q' = "[]"]
  have 1: "new_vector (start 0 [Handles [0]]) = Inl InvalidHandle"
    using u [where w = "start 0 [Handles [0]]" and h = 0 and q = "[]"]
    by (simp add: start_def start_on_def in_bounds_def)
  have 2: "new_graph (start 0 [Handles [-1]]) = Inl InvalidHandle"
    using u [where w = "start 0 [Handles [-1]]" and h = "-1" and q = "[]"]
    by (simp add: start_def start_on_def in_bounds_def)
  have 3: "new_matrix (start 1 [Handles [5]]) = Inl InvalidHandle"
    using u [where w = "start 1 [Handles [5]]" and h = 5 and q = "[]"]
    by (simp add: start_def start_on_def in_bounds_def)
  have 4: "get_vector (start 1 [Handles [1]]) = Inl InvalidHandle"
    using u [where w = "start 1 [Handles [1]]" and h = 1 and q = "[]"]
    by (simp add: start_def start_on_def in_bounds_def)
  have 5: "add_evec (start 1 [Sizes [1], Handles [0], Sizes [1], Globals [2], Scalars [7]]) =
     Inl InvalidHandle"
    using t [where w = "start 1 [Sizes [1], Handles [0], Sizes [1], Globals [2], Scalars [7]]"
        and h = 0 and q = "[]" and n = 1 and idx = "[2]" and data = "[7]" and c = 0 and q' = "[]"]
    by (simp add: start_def start_on_def in_bounds_def size_at_zero)
  have 6: "new_vector ((start 0 [Handles [0], Chars [6]])
             \<lparr>wire := [Received Bcast MPI_CHAR 1 (Chars [1])]\<rparr>) = Inl InvalidHandle"
    using u [where w = "(start 0 [Handles [0], Chars [6]])
             \<lparr>wire := [Received Bcast MPI_CHAR 1 (Chars [1])]\<rparr>" and h = 0 and q = "[Chars [6]]"]
    by (simp add: start_def start_on_def in_bounds_def)
  have 7: "dispatch_loop (start 0 [Chars [1], Handles [0], Chars [6]]) = Inl InvalidHandle"
    using t [where w = "start 0 [Chars [1], Handles [0], Chars [6]]" and c = 1
        and q' = "[Handles [0], Chars [6]]" and h = 0 and q = "[]" and n = 0 and idx = "[]"
        and data = "[]"] 6
    by (simp add: start_def start_on_def FTABLE_def)
  have 8: "new_vector ((start 0 [Handles [0], Chars [6]])
             \<lparr>wire := [Init, Received Bcast MPI_CHAR 1 (Chars [1])]\<rparr>) = Inl InvalidHandle"
    using u [where w = "(start 0 [Handles [0], Chars [6]])
             \<lparr>wire := [Init, Received Bcast MPI_CHAR 1 (Chars [1])]\<rparr>" and h = 0
        and q = "[Chars [6]]"]
    by (simp add: start_def start_on_def in_bounds_def)
  have 9: "dispatch_loop ((start 0 [Chars [1], Handles [0], Chars [6]])\<lparr>wire := [Init]\<rparr>) =
      Inl InvalidHandle"
    using t [where w = "(start 0 [Chars [1], Handles [0], Chars [6]])\<lparr>wire := [Init]\<rparr>"
        and c = 1 and q' = "[Handles [0], Chars [6]]" and h = 0 and q = "[]" and n = 0
        and idx = "[]" and data = "[]"] 8
    by (simp add: start_def start_on_def FTABLE_def)
  have 10: "main [''libmatrix'', ''eventloop''] (start 0 [Chars [1], Handles [0], Chars [6]]) =
     Abort InvalidHandle"
    using u [where w = "start 0 [Chars [1], Handles [0], Chars [6]]" and h = 0 and q = "[]"] 9
    by (simp add: start_def start_on_def)
  have 11: "at_handle [10, 20, 30 :: nat] 2 = Inr 30"
    using u [where w = "start 0 []" and h = 2 and q = "[]"]
    by (simp add: in_bounds_def)
  from 1 2 3 4 5 7 10 11 show ?thesis by simp
qed



section \<open>Widths of the wire fields\<close>

lemma info_other_widths_agree:
  "printed_bits (info dm) ''local: int'' = Some (wire_bits dm MPI_LOCAL) \<and>
   printed_bits (info dm) ''global: int'' = Some (wire_bits dm MPI_GLOBAL) \<and>
   printed_bits (info dm) ''handle: int'' = Some (wire_bits dm MPI_HANDLE) \<and>
   printed_bits (info dm) ''scalar: float'' = Some (wire_bits dm MPI_SCALAR)"
  by (cases dm)
     (simp_all add: info_def wire_bits_def ctype_local_t_def ctype_global_t_def
        ctype_handle_t_def ctype_scalar_t_def MPI_LOCAL_def MPI_GLOBAL_def MPI_HANDLE_def
        MPI_SCALAR_def)

lemma info_size_width:
  "printed_bits (info dm) ''size: int'' = Some (wire_bits dm MPI_SIZE) \<longleftrightarrow> dm = ILP32"
  by (cases dm)
     (simp_all add: info_def wire_bits_def ctype_local_t_def ctype_global_t_def MPI_SIZE_def)


text \<open>
  What the difference of the two widths does to a size that is received on a
  little-endian LP64 machine: the variable holds the element that was sent exactly when its
  other half held zero.  With a one in that half, the variable \<open>rank\<close> of the worker of
  rank 1 holds \<open>2^32 + 1\<close> after the broadcast of the target 1, and the worker returns
  without a receive.  Two column counts 1 and 1 fill the first element of the buffer
  \<open>numcols\<close>, which then holds \<open>2^32 + 1\<close>, and leave the second as it was.
\<close>

lemma size_intact_LP64:
  "build w = LP64 \<Longrightarrow> endian w = LittleEndian \<Longrightarrow>
   size_intact w k x \<longleftrightarrow> uninit w (length (wire w) + k) 0 = 0"
  by (simp add: size_intact_def size_at_LP64 unat_eq_0)

lemma target_overlooked_on_LP64:
  "size_at (start_on LP64 LittleEndian (\<lambda>t k. 1) 1
              [Sizes [1], Handles [0], Sizes [1], Globals [2], Scalars [7]]) 0 1 = 4294967297 \<and>
   add_evec (start_on LP64 LittleEndian (\<lambda>t k. 1) 1
               [Sizes [1], Handles [0], Sizes [1], Globals [2], Scalars [7]]) =
     Inr ((start_on LP64 LittleEndian (\<lambda>t k. 1) 1
             [Handles [0], Sizes [1], Globals [2], Scalars [7]])
            \<lparr>wire := [Received Bcast MPI_SIZE 1 (Sizes [1])]\<rparr>)"
  by (simp add: start_on_def add_evec_other size_at_LP64)

lemma counts_pair_up_on_LP64:
  "sizes_at (start 1 []) 1 [1, 1] = [4294967297, 0] \<and>
   sizes_at (start_on ILP32 LittleEndian (\<lambda>t k. 0) 1 []) 1 [1, 1] = [1, 1]"
  by (simp add: start_def start_on_def sizes_at_def store_ints_def join_halves_def MPI_SIZE_def)


text \<open>
  C9.  A field of kind size is not exchanged with the width that \<open>info\<close> prints for
  \<open>size\<close>: \<open>info\<close> prints the width of \<open>size_t\<close>, the exchanges use \<open>MPI_SIZE\<close>, which is
  \<open>MPI::INT\<close>.  In the LP64 data model the printed width is 64 and the exchanged width 32.
  (For the kinds local, global, handle and scalar the two widths agree in every data model,
  and for size they agree in ILP32 only: the lemmas \<open>info_other_widths_agree\<close> and
  \<open>info_size_width\<close>.)
\<close>

theorem info_size_width_differs:
  "printed_bits (info LP64) ''size: int'' = Some 64 \<and>
   MPI_SIZE = MPI_INT \<and> wire_bits LP64 MPI_SIZE = 32"
  by (simp add: info_def MPI_SIZE_def wire_bits_def ctype_local_t_def ctype_global_t_def)


end
